theory Spec2Isabelle
  imports Complex_Main "HOL-Library.Sublist" "HOL-Library.Multiset" "HOL-Library.List_Lexorder" "HOL-Library.Char_ord"
begin

section \<open>JavaScript values and the runtime's coercions\<close>

text \<open>
  Rows are plain JavaScript objects. The model covers the primitive cell values
  \<^verbatim>\<open>undefined\<close>, \<^verbatim>\<open>null\<close>, booleans, numbers and strings. A number is
  the real that a finite double denotes: \<^verbatim>\<open>NaN\<close> is the value \<open>None\<close> of a
  \<open>real option\<close> where a coercion can produce it, and the infinities (division by zero,
  overflow) are outside the model.
  Strings are lists of 8-bit characters, so the case mapping below is the ASCII one.

  JavaScript's arithmetic is IEEE 754 double arithmetic: an operation returns the double
  nearest to the exact result. On integers below \<open>2^53\<close> sums, differences and products
  are exact, and the floor and the ceiling of a quotient of two such integers are those of
  the exact quotient; the model writes the arithmetic of counts, page numbers and pixel
  widths with the exact operations. The virtualization window divides and multiplies by an
  item height that need not be integral, and there the rounding decides the result (the
  offset 144 divided by the double nearest to 28.8 is exactly 5 in double arithmetic and
  below 5 in exact arithmetic): its four operations are the runtime's.
\<close>

datatype jsval = VUndefined | VNull | VBool bool | VNum real | VStr string

text \<open>
  The operations of the JavaScript runtime that are not code of the repository and have no
  closed form over exact reals are parameters of every function that reaches them: the
  decimal rendering of a number, the parsing of a string as a number (\<open>None\<close> is
  \<^verbatim>\<open>NaN\<close>), \<^verbatim>\<open>String.prototype.localeCompare\<close>, and the rounded sum,
  difference, product and quotient of two numbers (the operators \<^verbatim>\<open>+\<close>, \<^verbatim>\<open>-\<close>,
  \<^verbatim>\<open>*\<close> and \<^verbatim>\<open>/\<close> on doubles, where the result is finite).
\<close>

record js_runtime =
  NumberToString :: "real \<Rightarrow> string"
  StringToNumber :: "string \<Rightarrow> real option"
  localeCompare :: "string \<Rightarrow> string \<Rightarrow> real"
  numAdd :: "real \<Rightarrow> real \<Rightarrow> real"
  numSub :: "real \<Rightarrow> real \<Rightarrow> real"
  numMul :: "real \<Rightarrow> real \<Rightarrow> real"
  numDiv :: "real \<Rightarrow> real \<Rightarrow> real"

text \<open>
  A row is an object, given by its properties as key-value pairs with distinct keys (a
  lookup takes the first pair for the key).
\<close>

type_synonym row = "(string \<times> jsval) list"

definition getField :: "row \<Rightarrow> string \<Rightarrow> jsval" where
  \<comment> \<open>\<^verbatim>\<open>(row as any)[key]\<close>: a missing property reads as \<^verbatim>\<open>undefined\<close>.\<close>
  "getField r k = (case map_of r k of None \<Rightarrow> VUndefined | Some v \<Rightarrow> v)"

definition js_String :: "js_runtime \<Rightarrow> jsval \<Rightarrow> string" where
  "js_String rt v =
     (case v of
        VUndefined \<Rightarrow> ''undefined''
      | VNull \<Rightarrow> ''null''
      | VBool b \<Rightarrow> (if b then ''true'' else ''false'')
      | VNum x \<Rightarrow> NumberToString rt x
      | VStr s \<Rightarrow> s)"

definition js_Number :: "js_runtime \<Rightarrow> jsval \<Rightarrow> real option" where
  "js_Number rt v =
     (case v of
        VUndefined \<Rightarrow> None
      | VNull \<Rightarrow> Some 0
      | VBool b \<Rightarrow> Some (if b then 1 else 0)
      | VNum x \<Rightarrow> Some x
      | VStr s \<Rightarrow> StringToNumber rt s)"

definition lowerChar :: "char \<Rightarrow> char" where
  "lowerChar c =
     (let n = (of_char c :: nat)
      in if 65 \<le> n \<and> n \<le> 90 then char_of (n + 32) else c)"

definition toLowerCase :: "string \<Rightarrow> string" where
  "toLowerCase s = map lowerChar s"

fun js_includes :: "string \<Rightarrow> string \<Rightarrow> bool" where
  \<comment> \<open>\<^verbatim>\<open>s.includes(t)\<close>: \<open>t\<close> occurs in \<open>s\<close> as a contiguous run.\<close>
  "js_includes [] t = (t = [])"
| "js_includes (c # s) t = (prefix t (c # s) \<or> js_includes s t)"

definition startsWith :: "string \<Rightarrow> string \<Rightarrow> bool" where
  "startsWith s t = prefix t s"

definition endsWith :: "string \<Rightarrow> string \<Rightarrow> bool" where
  "endsWith s t = suffix t s"

text \<open>Comparisons of coerced numbers: any comparison with \<^verbatim>\<open>NaN\<close> is false.\<close>

definition num_gt :: "real option \<Rightarrow> real option \<Rightarrow> bool" where
  "num_gt a b = (case a of None \<Rightarrow> False | Some x \<Rightarrow> (case b of None \<Rightarrow> False | Some y \<Rightarrow> x > y))"

definition num_lt :: "real option \<Rightarrow> real option \<Rightarrow> bool" where
  "num_lt a b = (case a of None \<Rightarrow> False | Some x \<Rightarrow> (case b of None \<Rightarrow> False | Some y \<Rightarrow> x < y))"

definition num_ge :: "real option \<Rightarrow> real option \<Rightarrow> bool" where
  "num_ge a b = (case a of None \<Rightarrow> False | Some x \<Rightarrow> (case b of None \<Rightarrow> False | Some y \<Rightarrow> x \<ge> y))"

definition num_le :: "real option \<Rightarrow> real option \<Rightarrow> bool" where
  "num_le a b = (case a of None \<Rightarrow> False | Some x \<Rightarrow> (case b of None \<Rightarrow> False | Some y \<Rightarrow> x \<le> y))"

text \<open>
  \<^verbatim>\<open>Array.prototype.slice(start, end)\<close>: both bounds are truncated towards zero, a
  negative bound counts from the end, and both are clamped to the array.
\<close>

definition js_trunc :: "real \<Rightarrow> int" where
  "js_trunc x = (if 0 \<le> x then \<lfloor>x\<rfloor> else \<lceil>x\<rceil>)"

definition js_slice :: "'a list \<Rightarrow> real \<Rightarrow> real \<Rightarrow> 'a list" where
  "js_slice xs s e =
     (let n = int (length xs);
          rs = js_trunc s;
          re = js_trunc e;
          k = (if rs < 0 then max (n + rs) 0 else min rs n);
          f = (if re < 0 then max (n + re) 0 else min re n)
      in take (nat (f - k)) (drop (nat k) xs))"

text \<open>
  \<^verbatim>\<open>Array.prototype.sort(compare)\<close> is stable. For a comparator that is a consistent
  ordering every stable sort returns the same array, the one computed here by insertion;
  for an inconsistent comparator the engine's result is implementation-defined, and the
  model fixes insertion from the right.
\<close>

fun js_insert :: "('a \<Rightarrow> 'a \<Rightarrow> real) \<Rightarrow> 'a \<Rightarrow> 'a list \<Rightarrow> 'a list" where
  "js_insert cmp x [] = [x]"
| "js_insert cmp x (y # ys) = (if cmp x y \<le> 0 then x # y # ys else y # js_insert cmp x ys)"

definition js_sort :: "('a \<Rightarrow> 'a \<Rightarrow> real) \<Rightarrow> 'a list \<Rightarrow> 'a list" where
  "js_sort cmp xs = foldr (js_insert cmp) xs []"

section \<open>table.types.ts\<close>

datatype SortDirection = Asc | Desc | NoDirection

datatype FrozenPosition = FrozenLeft | FrozenRight

datatype FilterType = FtText | FtNumber | FtDate | FtSelect | FtBoolean

text \<open>
  \<^verbatim>\<open>ColumnConfig\<close>, with the fields the modelled functions read. Optional fields are
  options: \<open>None\<close> is an absent (\<^verbatim>\<open>undefined\<close>) property.
\<close>

record ColumnConfig =
  col_key :: string
  col_title :: string
  col_order :: real
  col_width :: "real option"
  col_sortable :: "bool option"
  col_filterable :: "bool option"
  col_resizable :: "bool option"
  col_frozen :: "bool option"
  col_frozenPosition :: "FrozenPosition option"
  col_visible :: "bool option"
  col_filterType :: "FilterType option"
  col_sortComparator :: "(row \<Rightarrow> row \<Rightarrow> SortDirection \<Rightarrow> real) option"
  col_isComputed :: "bool option"

record SortConfig =
  sort_key :: string
  sort_direction :: SortDirection
  sort_order :: real

text \<open>
  \<^verbatim>\<open>FilterOperator\<close>. The type lists twelve operators; \<open>UnknownFilterOperator\<close> stands
  for any other string, which reaches the \<^verbatim>\<open>default\<close> branch at run time.
\<close>

datatype FilterOperator =
    Equals | NotEquals | Contains | NotContains | StartsWith | EndsWith
  | GreaterThan | LessThan | GreaterThanOrEqual | LessThanOrEqual
  | Between | InList | UnknownFilterOperator

text \<open>\<^verbatim>\<open>FilterConfig.value\<close> is \<^verbatim>\<open>any\<close>: a primitive, or an array of primitives.\<close>

datatype filter_value = FPrim jsval | FArr "jsval list"

record FilterConfig =
  filter_key :: string
  filter_value :: filter_value
  filter_operator :: FilterOperator

datatype SelectionMode = Single | Multiple

record TableConfig =
  enablePagination :: "bool option"
  enableRowSelection :: "bool option"
  enableVirtualScroll :: "bool option"
  virtualScrollItemHeight :: "real option"
  virtualScrollBufferSize :: "real option"
  cfg_pageSize :: "real option"
  selectionMode :: "SelectionMode option"
  showSelectionCheckbox :: "bool option"
  tableHeight :: "real option"
  rowKeyField :: "string option"

definition DEFAULT_TABLE_CONFIG :: TableConfig where
  "DEFAULT_TABLE_CONFIG =
     \<lparr> enablePagination = Some True,
       enableRowSelection = Some True,
       enableVirtualScroll = Some False,
       virtualScrollItemHeight = Some 48,
       virtualScrollBufferSize = Some 5,
       cfg_pageSize = Some 10,
       selectionMode = Some Multiple,
       showSelectionCheckbox = Some True,
       tableHeight = Some 600,
       rowKeyField = Some ''id'' \<rparr>"

definition orElse :: "'a option \<Rightarrow> 'a option \<Rightarrow> 'a option" where
  \<comment> \<open>One property of \<^verbatim>\<open>{...defaults, ...given}\<close>: the given one wins when present.\<close>
  "orElse given dflt = (case given of None \<Rightarrow> dflt | Some v \<Rightarrow> Some v)"

definition mergeConfig :: "TableConfig \<Rightarrow> TableConfig \<Rightarrow> TableConfig" where
  "mergeConfig dflt given =
     \<lparr> enablePagination = orElse (enablePagination given) (enablePagination dflt),
       enableRowSelection = orElse (enableRowSelection given) (enableRowSelection dflt),
       enableVirtualScroll = orElse (enableVirtualScroll given) (enableVirtualScroll dflt),
       virtualScrollItemHeight = orElse (virtualScrollItemHeight given) (virtualScrollItemHeight dflt),
       virtualScrollBufferSize = orElse (virtualScrollBufferSize given) (virtualScrollBufferSize dflt),
       cfg_pageSize = orElse (cfg_pageSize given) (cfg_pageSize dflt),
       selectionMode = orElse (selectionMode given) (selectionMode dflt),
       showSelectionCheckbox = orElse (showSelectionCheckbox given) (showSelectionCheckbox dflt),
       tableHeight = orElse (tableHeight given) (tableHeight dflt),
       rowKeyField = orElse (rowKeyField given) (rowKeyField dflt) \<rparr>"

section \<open>features/pagination.feature.ts\<close>

record PaginationState =
  currentPage :: real
  pageSize :: real

record PageChangeEvent =
  ev_page :: real
  ev_pageSize :: real

text \<open>\<^verbatim>\<open>page: number | string\<close> (the pager's ellipsis entry is a string).\<close>

datatype page_arg = PageNumber real | PageString string

definition createPaginationState :: "real \<Rightarrow> PaginationState" where
  "createPaginationState initialPageSize = \<lparr> currentPage = 1, pageSize = initialPageSize \<rparr>"

definition computeTotalPages :: "real \<Rightarrow> real \<Rightarrow> real" where
  \<comment> \<open>\<^verbatim>\<open>Math.ceil(totalItems / pageSize)\<close>; a zero page size is outside the model.\<close>
  "computeTotalPages totalItems pgSize = of_int \<lceil>totalItems / pgSize\<rceil>"

text \<open>
  The operations take the dependency \<^verbatim>\<open>deps.totalItems()\<close> as a number and return
  the new state together with the events passed to \<^verbatim>\<open>deps.onPageChange\<close>, in order.
\<close>

definition goToPage ::
  "page_arg \<Rightarrow> PaginationState \<Rightarrow> real \<Rightarrow> PaginationState \<times> PageChangeEvent list" where
  "goToPage pg st totalItems =
     (case pg of
        PageString s \<Rightarrow> (st, [])
      | PageNumber p \<Rightarrow>
          (let totalPages = computeTotalPages totalItems (pageSize st)
           in if p < 1 \<or> p > totalPages then (st, [])
              else (st\<lparr>currentPage := p\<rparr>, [\<lparr> ev_page = p, ev_pageSize = pageSize st \<rparr>])))"

definition changePageSize ::
  "real \<Rightarrow> PaginationState \<Rightarrow> PaginationState \<times> PageChangeEvent list" where
  "changePageSize sz st =
     (st\<lparr>pageSize := sz, currentPage := 1\<rparr>, [\<lparr> ev_page = 1, ev_pageSize = sz \<rparr>])"

definition applyPagination :: "'a list \<Rightarrow> PaginationState \<Rightarrow> bool \<Rightarrow> 'a list" where
  "applyPagination dat st enabled =
     (if \<not> enabled then dat
      else (let start = (currentPage st - 1) * pageSize st;
                end' = start + pageSize st
            in js_slice dat start end'))"

definition resetPagination :: "PaginationState \<Rightarrow> PaginationState" where
  "resetPagination st = st\<lparr>currentPage := 1\<rparr>"

section \<open>features/virtual-scroll.feature.ts\<close>

record 'a VirtualScrollData =
  visibleData :: "'a list"
  startIndex :: real
  endIndex :: real
  offsetY :: real
  totalHeight :: real

record VirtualScrollConfig =
  vs_enabled :: bool
  itemHeight :: real
  bufferSize :: real
  containerHeight :: real

text \<open>
  The state is the signal \<^verbatim>\<open>scrollTop\<close>, passed as a number. The quotients, the
  sums, the difference and the products are the runtime's rounded operations;
  \<^verbatim>\<open>Math.floor\<close>, \<^verbatim>\<open>Math.ceil\<close>, \<^verbatim>\<open>Math.max\<close> and \<^verbatim>\<open>Math.min\<close> are
  exact on doubles, an array length is an integer, and doubling (\<^verbatim>\<open>bufferSize * 2\<close>) is
  exact. Both divisions are by \<^verbatim>\<open>config.itemHeight\<close>; an item height of zero
  (infinite or \<^verbatim>\<open>NaN\<close> quotients in JavaScript) is outside the model.
\<close>

definition visibleCount :: "js_runtime \<Rightarrow> VirtualScrollConfig \<Rightarrow> real" where
  \<comment> \<open>The local constant \<^verbatim>\<open>visibleCount\<close> of \<^verbatim>\<open>computeVirtualScrollData\<close>.\<close>
  "visibleCount rt cfg =
     numAdd rt (of_int \<lceil>numDiv rt (containerHeight cfg) (itemHeight cfg)\<rceil>) (bufferSize cfg * 2)"

definition computeVirtualScrollData ::
  "js_runtime \<Rightarrow> 'a list \<Rightarrow> 'a list \<Rightarrow> real \<Rightarrow> VirtualScrollConfig \<Rightarrow> 'a VirtualScrollData" where
  "computeVirtualScrollData rt dat paginated scrollTop cfg =
     (if \<not> vs_enabled cfg then
        \<lparr> visibleData = paginated,
          startIndex = 0,
          endIndex = of_nat (length paginated),
          offsetY = 0,
          totalHeight = numMul rt (of_nat (length paginated)) (itemHeight cfg) \<rparr>
      else
        (let scrollPos = scrollTop;
             start =
               max 0 (numSub rt (of_int \<lfloor>numDiv rt scrollPos (itemHeight cfg)\<rfloor>) (bufferSize cfg));
             end' = min (of_nat (length dat)) (numAdd rt start (visibleCount rt cfg))
         in \<lparr> visibleData = js_slice dat start end',
              startIndex = start,
              endIndex = end',
              offsetY = numMul rt start (itemHeight cfg),
              totalHeight = numMul rt (of_nat (length dat)) (itemHeight cfg) \<rparr>))"

definition getVirtualScrollConfig :: "TableConfig \<Rightarrow> VirtualScrollConfig" where
  "getVirtualScrollConfig cfg =
     \<lparr> vs_enabled = (case enableVirtualScroll cfg of None \<Rightarrow> False | Some b \<Rightarrow> b),
       itemHeight = (case virtualScrollItemHeight cfg of None \<Rightarrow> 48 | Some h \<Rightarrow> h),
       bufferSize = (case virtualScrollBufferSize cfg of None \<Rightarrow> 5 | Some b \<Rightarrow> b),
       containerHeight = (case tableHeight cfg of None \<Rightarrow> 600 | Some h \<Rightarrow> h) \<rparr>"

section \<open>features/filtering.feature.ts\<close>

record FilteringState =
  filters :: "FilterConfig list"
  filterInputs :: "string \<rightharpoonup> string"

definition createFilteringState :: FilteringState where
  "createFilteringState = \<lparr> filters = [], filterInputs = Map.empty \<rparr>"

definition getDefaultOperator :: "FilterType \<Rightarrow> FilterOperator" where
  "getDefaultOperator filterType =
     (case filterType of
        FtNumber \<Rightarrow> Equals
      | FtDate \<Rightarrow> Equals
      | FtBoolean \<Rightarrow> Equals
      | _ \<Rightarrow> Contains)"

definition isWhiteSpace :: "char \<Rightarrow> bool" where
  \<comment> \<open>The ASCII white space and line terminators that \<^verbatim>\<open>trim\<close> removes.\<close>
  "isWhiteSpace c = ((of_char c :: nat) \<in> {9, 10, 11, 12, 13, 32})"

definition js_trim :: "string \<Rightarrow> string" where
  "js_trim s = rev (dropWhile isWhiteSpace (rev (dropWhile isWhiteSpace s)))"

text \<open>
  The handlers return the new state and the events passed to
  \<^verbatim>\<open>deps.onFilterChange\<close> (each event is the list of filters it carries).
\<close>

definition handleFilterInput ::
  "ColumnConfig \<Rightarrow> string \<Rightarrow> FilteringState \<Rightarrow> FilteringState \<times> FilterConfig list list" where
  "handleFilterInput column val st =
     (let inputs = (filterInputs st)(col_key column \<mapsto> val);
          kept = filter (\<lambda>f. filter_key f \<noteq> col_key column) (filters st);
          currentFilters =
            (if js_trim val \<noteq> [] then
               kept @ [\<lparr> filter_key = col_key column,
                         filter_value = FPrim (VStr (js_trim val)),
                         filter_operator =
                           getDefaultOperator
                             (case col_filterType column of None \<Rightarrow> FtText | Some ft \<Rightarrow> ft) \<rparr>]
             else kept)
      in (\<lparr> filters = currentFilters, filterInputs = inputs \<rparr>, [currentFilters]))"

definition clearFilter ::
  "string \<Rightarrow> FilteringState \<Rightarrow> FilteringState \<times> FilterConfig list list" where
  "clearFilter k st =
     (let inputs = (filterInputs st)(k := None);
          currentFilters = filter (\<lambda>f. filter_key f \<noteq> k) (filters st)
      in (\<lparr> filters = currentFilters, filterInputs = inputs \<rparr>, [currentFilters]))"

definition clearAllFilters :: "FilteringState \<Rightarrow> FilteringState \<times> FilterConfig list list" where
  "clearAllFilters st = (\<lparr> filters = [], filterInputs = Map.empty \<rparr>, [[]])"

fun joinComma :: "string list \<Rightarrow> string" where
  "joinComma [] = []"
| "joinComma [s] = s"
| "joinComma (s # t # ss) = s @ '','' @ joinComma (t # ss)"

definition arrayElementString :: "js_runtime \<Rightarrow> jsval \<Rightarrow> string" where
  \<comment> \<open>\<^verbatim>\<open>Array.prototype.join\<close> renders \<^verbatim>\<open>null\<close> and \<^verbatim>\<open>undefined\<close> as the empty string.\<close>
  "arrayElementString rt v =
     (case v of VUndefined \<Rightarrow> [] | VNull \<Rightarrow> [] | _ \<Rightarrow> js_String rt v)"

definition filterValueString :: "js_runtime \<Rightarrow> filter_value \<Rightarrow> string" where
  \<comment> \<open>\<^verbatim>\<open>String(filterValue)\<close>\<close>
  "filterValueString rt fv =
     (case fv of
        FPrim v \<Rightarrow> js_String rt v
      | FArr vs \<Rightarrow> joinComma (map (arrayElementString rt) vs))"

definition filterValueNumber :: "js_runtime \<Rightarrow> filter_value \<Rightarrow> real option" where
  \<comment> \<open>\<^verbatim>\<open>Number(filterValue)\<close>: an array is converted through its string.\<close>
  "filterValueNumber rt fv =
     (case fv of
        FPrim v \<Rightarrow> js_Number rt v
      | FArr vs \<Rightarrow> StringToNumber rt (filterValueString rt fv))"

definition applyFilterToRow :: "js_runtime \<Rightarrow> row \<Rightarrow> FilterConfig \<Rightarrow> bool" where
  "applyFilterToRow rt r f =
     (let val = getField r (filter_key f);
          filterValue = filter_value f
      in case filter_operator f of
           Equals \<Rightarrow>
             toLowerCase (js_String rt val) = toLowerCase (filterValueString rt filterValue)
         | NotEquals \<Rightarrow>
             toLowerCase (js_String rt val) \<noteq> toLowerCase (filterValueString rt filterValue)
         | Contains \<Rightarrow>
             js_includes (toLowerCase (js_String rt val))
               (toLowerCase (filterValueString rt filterValue))
         | NotContains \<Rightarrow>
             \<not> js_includes (toLowerCase (js_String rt val))
                 (toLowerCase (filterValueString rt filterValue))
         | StartsWith \<Rightarrow>
             startsWith (toLowerCase (js_String rt val))
               (toLowerCase (filterValueString rt filterValue))
         | EndsWith \<Rightarrow>
             endsWith (toLowerCase (js_String rt val))
               (toLowerCase (filterValueString rt filterValue))
         | GreaterThan \<Rightarrow> num_gt (js_Number rt val) (filterValueNumber rt filterValue)
         | LessThan \<Rightarrow> num_lt (js_Number rt val) (filterValueNumber rt filterValue)
         | GreaterThanOrEqual \<Rightarrow> num_ge (js_Number rt val) (filterValueNumber rt filterValue)
         | LessThanOrEqual \<Rightarrow> num_le (js_Number rt val) (filterValueNumber rt filterValue)
         | Between \<Rightarrow>
             (case filterValue of
                FArr [lo, hi] \<Rightarrow>
                  num_ge (js_Number rt val) (js_Number rt lo) \<and>
                  num_le (js_Number rt val) (js_Number rt hi)
              | _ \<Rightarrow> True)
         | InList \<Rightarrow>
             (case filterValue of
                FArr vs \<Rightarrow>
                  list_ex (\<lambda>v. toLowerCase (js_String rt val) = toLowerCase (js_String rt v)) vs
              | _ \<Rightarrow> True)
         | UnknownFilterOperator \<Rightarrow> True)"

definition applyFiltering :: "js_runtime \<Rightarrow> row list \<Rightarrow> FilteringState \<Rightarrow> row list" where
  "applyFiltering rt dat st =
     (let activeFilters = filters st
      in if length activeFilters = 0 then dat
         else filter (\<lambda>r. list_all (\<lambda>f. applyFilterToRow rt r f) activeFilters) dat)"

section \<open>features/sorting.feature.ts\<close>

record SortingState =
  sorts :: "SortConfig list"

definition createSortingState :: SortingState where
  "createSortingState = \<lparr> sorts = [] \<rparr>"

text \<open>
  The body of the loop over the active sort entries in the comparator that
  \<^verbatim>\<open>applySorting\<close> passes to \<^verbatim>\<open>sort\<close>: the value of \<^verbatim>\<open>comparison\<close> when the
  loop tests it against zero.
\<close>

definition sortEntryComparison ::
  "SortConfig \<Rightarrow> ColumnConfig list \<Rightarrow> (jsval \<Rightarrow> jsval \<Rightarrow> real) \<Rightarrow> row \<Rightarrow> row \<Rightarrow> real" where
  "sortEntryComparison srt cols defaultCmp a b =
     (let column = find (\<lambda>c. col_key c = sort_key srt) cols;
          comparison =
            (case (case column of None \<Rightarrow> None | Some c \<Rightarrow> col_sortComparator c) of
               Some cmp \<Rightarrow> cmp a b (sort_direction srt)
             | None \<Rightarrow> defaultCmp (getField a (sort_key srt)) (getField b (sort_key srt)))
      in if sort_direction srt = Desc then comparison * (- 1) else comparison)"

fun compareRows ::
  "SortConfig list \<Rightarrow> ColumnConfig list \<Rightarrow> (jsval \<Rightarrow> jsval \<Rightarrow> real) \<Rightarrow> row \<Rightarrow> row \<Rightarrow> real" where
  "compareRows [] cols defaultCmp a b = 0"
| "compareRows (srt # rest) cols defaultCmp a b =
     (let comparison = sortEntryComparison srt cols defaultCmp a b
      in if comparison \<noteq> 0 then comparison else compareRows rest cols defaultCmp a b)"

text \<open>
  \<^verbatim>\<open>activeSorts.sort((x, y) => x.order - y.order)\<close> reorders the state's own array in
  place on every comparison. The entries that \<^verbatim>\<open>handleHeaderClick\<close> builds are already
  in ascending \<^verbatim>\<open>order\<close>, so the reordering is not observable there; the model returns
  the sorted rows only.
\<close>

definition applySorting ::
  "row list \<Rightarrow> SortingState \<Rightarrow> ColumnConfig list \<Rightarrow> (jsval \<Rightarrow> jsval \<Rightarrow> real) \<Rightarrow> row list" where
  "applySorting dat st cols defaultCmp =
     (let activeSorts = sorts st
      in if length activeSorts = 0 then dat
         else js_sort
                (compareRows (js_sort (\<lambda>x y. sort_order x - sort_order y) activeSorts)
                   cols defaultCmp)
                dat)"

definition resetSorting :: "SortingState \<Rightarrow> SortingState \<times> SortConfig list list" where
  "resetSorting st = (\<lparr> sorts = [] \<rparr>, [[]])"

section \<open>features/selection.feature.ts\<close>

record SelectionState =
  selectedRows :: "jsval set"

record RowSelectionEvent =
  sel_selected :: "row list"
  sel_row :: "row option"
  sel_isSelected :: bool

text \<open>The dependencies \<^verbatim>\<open>data()\<close>, \<^verbatim>\<open>paginatedData()\<close> and \<^verbatim>\<open>config()\<close> as values.\<close>

record SelectionDeps =
  deps_data :: "row list"
  deps_paginatedData :: "row list"
  deps_config :: TableConfig

definition createSelectionState :: SelectionState where
  "createSelectionState = \<lparr> selectedRows = {} \<rparr>"

definition keyFieldOf :: "TableConfig \<Rightarrow> string" where
  \<comment> \<open>\<^verbatim>\<open>config.rowKeyField || 'id'\<close>\<close>
  "keyFieldOf cfg = (case rowKeyField cfg of None \<Rightarrow> ''id'' | Some k \<Rightarrow> (if k = [] then ''id'' else k))"

definition emitSelectionChange ::
  "row option \<Rightarrow> bool \<Rightarrow> SelectionState \<Rightarrow> SelectionDeps \<Rightarrow> RowSelectionEvent" where
  "emitSelectionChange r isSel st deps =
     (let keyField = keyFieldOf (deps_config deps);
          selectedData = filter (\<lambda>x. getField x keyField \<in> selectedRows st) (deps_data deps)
      in \<lparr> sel_selected = selectedData, sel_row = r, sel_isSelected = isSel \<rparr>)"

definition toggleRowSelection ::
  "row \<Rightarrow> SelectionState \<Rightarrow> SelectionDeps \<Rightarrow> SelectionState \<times> RowSelectionEvent list" where
  "toggleRowSelection r st deps =
     (let cfg = deps_config deps
      in if enableRowSelection cfg \<noteq> Some True then (st, [])
         else
           (let keyField = keyFieldOf cfg;
                k = getField r keyField;
                selected = selectedRows st;
                selected' =
                  (if selectionMode cfg = Some Single then
                     (if k \<in> selected then {} else insert k {})
                   else
                     (if k \<in> selected then selected - {k} else insert k selected));
                st' = st\<lparr>selectedRows := selected'\<rparr>
            in (st', [emitSelectionChange (Some r) (k \<in> selected') st' deps])))"

definition toggleAllSelection ::
  "bool \<Rightarrow> SelectionState \<Rightarrow> SelectionDeps \<Rightarrow> SelectionState \<times> RowSelectionEvent list" where
  "toggleAllSelection allSelected st deps =
     (let cfg = deps_config deps;
          keyField = keyFieldOf cfg;
          dat = deps_paginatedData deps;
          selected = selectedRows st;
          selected' =
            (if allSelected then foldl (\<lambda>s r. s - {getField r keyField}) selected dat
             else foldl (\<lambda>s r. insert (getField r keyField) s) selected dat);
          st' = st\<lparr>selectedRows := selected'\<rparr>
      in (st', [emitSelectionChange None (\<not> allSelected) st' deps]))"

definition computeAllSelected :: "row list \<Rightarrow> jsval set \<Rightarrow> string \<Rightarrow> bool" where
  "computeAllSelected paginated selected keyField =
     (length paginated > 0 \<and> list_all (\<lambda>r. getField r keyField \<in> selected) paginated)"

definition clearSelection :: "SelectionState \<Rightarrow> SelectionState \<times> RowSelectionEvent list" where
  "clearSelection st =
     (st\<lparr>selectedRows := {}\<rparr>,
      [\<lparr> sel_selected = [], sel_row = None, sel_isSelected = False \<rparr>])"

section \<open>features/column-utils.feature.ts\<close>

definition getFrozenLeftColumns :: "ColumnConfig list \<Rightarrow> ColumnConfig list" where
  "getFrozenLeftColumns cols =
     filter (\<lambda>c. col_frozen c = Some True \<and> col_frozenPosition c \<noteq> Some FrozenRight) cols"

definition getFrozenRightColumns :: "ColumnConfig list \<Rightarrow> ColumnConfig list" where
  "getFrozenRightColumns cols =
     filter (\<lambda>c. col_frozen c = Some True \<and> col_frozenPosition c = Some FrozenRight) cols"

definition getScrollableColumns :: "ColumnConfig list \<Rightarrow> ColumnConfig list" where
  "getScrollableColumns cols = filter (\<lambda>c. col_frozen c \<noteq> Some True) cols"

definition getVisibleColumns :: "ColumnConfig list \<Rightarrow> ColumnConfig list" where
  "getVisibleColumns cols = filter (\<lambda>c. col_visible c \<noteq> Some False) cols"

definition widthOrDefault :: "ColumnConfig \<Rightarrow> real" where
  \<comment> \<open>\<^verbatim>\<open>column.width || 150\<close>, the width \<^verbatim>\<open>getColumnStyle\<close> renders as well.\<close>
  "widthOrDefault c = (case col_width c of None \<Rightarrow> 150 | Some w \<Rightarrow> (if w = 0 then 150 else w))"

fun js_findIndex :: "('a \<Rightarrow> bool) \<Rightarrow> 'a list \<Rightarrow> int" where
  \<comment> \<open>\<^verbatim>\<open>Array.prototype.findIndex\<close>: the first index that satisfies \<open>P\<close>, or \<open>-1\<close>.\<close>
  "js_findIndex P [] = - 1"
| "js_findIndex P (x # xs) =
     (if P x then 0 else (let i = js_findIndex P xs in if i < 0 then - 1 else i + 1))"

definition getFrozenLeftOffset ::
  "js_runtime \<Rightarrow> ColumnConfig \<Rightarrow> ColumnConfig list \<Rightarrow> TableConfig \<Rightarrow> string" where
  "getFrozenLeftOffset rt column frozenLeftColumns cfg =
     (let index = js_findIndex (\<lambda>c. col_key c = col_key column) frozenLeftColumns;
          offset0 =
            (if enableRowSelection cfg = Some True \<and> showSelectionCheckbox cfg = Some True
             then 0 + 48 else 0);
          offset = foldl (\<lambda>off c. off + widthOrDefault c) offset0 (take (nat index) frozenLeftColumns)
      in NumberToString rt offset @ ''px'')"

definition getFrozenRightOffset :: "js_runtime \<Rightarrow> ColumnConfig \<Rightarrow> ColumnConfig list \<Rightarrow> string" where
  \<comment> \<open>The loop runs from the last index down to \<open>index + 1\<close>.\<close>
  "getFrozenRightOffset rt column frozenRightColumns =
     (let index = js_findIndex (\<lambda>c. col_key c = col_key column) frozenRightColumns;
          offset =
            foldl (\<lambda>off c. off + widthOrDefault c) 0
              (rev (drop (nat (index + 1)) frozenRightColumns))
      in NumberToString rt offset @ ''px'')"

text \<open>
  \<^verbatim>\<open>defaultCompare\<close>. The value universe has no \<^verbatim>\<open>Date\<close> objects, so the branch for
  two dates does not arise.
\<close>

definition defaultCompare :: "js_runtime \<Rightarrow> jsval \<Rightarrow> jsval \<Rightarrow> real" where
  "defaultCompare rt a b =
     (if a = b then 0
      else if a = VNull \<or> a = VUndefined then 1
      else if b = VNull \<or> b = VUndefined then - 1
      else (case (a, b) of
              (VNum x, VNum y) \<Rightarrow> x - y
            | _ \<Rightarrow> localeCompare rt (js_String rt a) (js_String rt b)))"

section \<open>features/computed-columns.feature.ts\<close>

text \<open>
  \<^verbatim>\<open>ConditionOperator\<close>; \<open>CondUnknown\<close> stands for any other string, which reaches the
  \<^verbatim>\<open>default\<close> branch at run time.
\<close>

datatype ConditionOperator =
    CondEquals | CondNotEquals | CondContains | CondNotContains
  | CondGreaterThan | CondLessThan | CondGreaterThanOrEqual | CondLessThanOrEqual
  | CondIsEmpty | CondIsNotEmpty | CondUnknown

record ColumnCondition =
  cond_id :: string
  sourceColumn :: string
  cond_operator :: ConditionOperator
  compareValue :: string
  thenValue :: string
  elseValue :: string

record ComputedColumnDefinition =
  cc_key :: string
  cc_title :: string
  conditions :: "ColumnCondition list"
  defaultValue :: string

definition evaluateCondition :: "js_runtime \<Rightarrow> row \<Rightarrow> ColumnCondition \<Rightarrow> bool" where
  "evaluateCondition rt r cond =
     (let sourceValue = getField r (sourceColumn cond);
          cmpValue = compareValue cond
      in case cond_operator cond of
           CondEquals \<Rightarrow> toLowerCase (js_String rt sourceValue) = toLowerCase cmpValue
         | CondNotEquals \<Rightarrow> toLowerCase (js_String rt sourceValue) \<noteq> toLowerCase cmpValue
         | CondContains \<Rightarrow>
             js_includes (toLowerCase (js_String rt sourceValue)) (toLowerCase cmpValue)
         | CondNotContains \<Rightarrow>
             \<not> js_includes (toLowerCase (js_String rt sourceValue)) (toLowerCase cmpValue)
         | CondGreaterThan \<Rightarrow> num_gt (js_Number rt sourceValue) (StringToNumber rt cmpValue)
         | CondLessThan \<Rightarrow> num_lt (js_Number rt sourceValue) (StringToNumber rt cmpValue)
         | CondGreaterThanOrEqual \<Rightarrow>
             num_ge (js_Number rt sourceValue) (StringToNumber rt cmpValue)
         | CondLessThanOrEqual \<Rightarrow>
             num_le (js_Number rt sourceValue) (StringToNumber rt cmpValue)
         | CondIsEmpty \<Rightarrow>
             sourceValue = VNull \<or> sourceValue = VUndefined \<or> sourceValue = VStr []
         | CondIsNotEmpty \<Rightarrow>
             sourceValue \<noteq> VNull \<and> sourceValue \<noteq> VUndefined \<and> sourceValue \<noteq> VStr []
         | CondUnknown \<Rightarrow> False)"

fun firstMatchingThen :: "js_runtime \<Rightarrow> row \<Rightarrow> ColumnCondition list \<Rightarrow> string option" where
  \<comment> \<open>The \<^verbatim>\<open>for\<close> loop of \<^verbatim>\<open>computeColumnValue\<close>: \<open>Some\<close> is its early return.\<close>
  "firstMatchingThen rt r [] = None"
| "firstMatchingThen rt r (cond # rest) =
     (if evaluateCondition rt r cond then Some (thenValue cond)
      else firstMatchingThen rt r rest)"

definition computeColumnValue :: "js_runtime \<Rightarrow> row \<Rightarrow> ComputedColumnDefinition \<Rightarrow> string" where
  "computeColumnValue rt r columnDef =
     (case firstMatchingThen rt r (conditions columnDef) of
        Some v \<Rightarrow> v
      | None \<Rightarrow>
          (if defaultValue columnDef \<noteq> [] then defaultValue columnDef
           else (case conditions columnDef of
                   [] \<Rightarrow> []
                 | c # _ \<Rightarrow> (if elseValue c \<noteq> [] then elseValue c else []))))"

definition computedColumnToColumnConfig :: "ComputedColumnDefinition \<Rightarrow> real \<Rightarrow> ColumnConfig" where
  "computedColumnToColumnConfig computedCol ord =
     \<lparr> col_key = cc_key computedCol,
       col_title = cc_title computedCol,
       col_order = ord,
       col_width = Some 150,
       col_sortable = Some True,
       col_filterable = Some True,
       col_resizable = Some True,
       col_frozen = None,
       col_frozenPosition = None,
       col_visible = None,
       col_filterType = None,
       col_sortComparator = None,
       col_isComputed = Some True \<rparr>"

section \<open>features/coloring.feature.ts\<close>

datatype picker_type = PickRow | PickColumn | PickCell

record ColorPickerContext =
  picker_type :: picker_type
  picker_rowKey :: "jsval option"
  picker_columnKey :: "string option"
  picker_x :: real
  picker_y :: real

record ColoringState =
  rowColors :: "jsval \<rightharpoonup> string"
  columnColors :: "string \<rightharpoonup> string"
  cellColors :: "string \<rightharpoonup> string"
  activeColorPicker :: "ColorPickerContext option"

definition createColoringState :: ColoringState where
  "createColoringState =
     \<lparr> rowColors = Map.empty, columnColors = Map.empty, cellColors = Map.empty,
       activeColorPicker = None \<rparr>"

definition openColorPicker :: "ColoringState \<Rightarrow> ColorPickerContext \<Rightarrow> ColoringState" where
  "openColorPicker st ctx = st\<lparr>activeColorPicker := Some ctx\<rparr>"

definition closeColorPicker :: "ColoringState \<Rightarrow> ColoringState" where
  "closeColorPicker st = st\<lparr>activeColorPicker := None\<rparr>"

definition setRowColor :: "ColoringState \<Rightarrow> jsval \<Rightarrow> string \<Rightarrow> ColoringState" where
  "setRowColor st rowKey color =
     closeColorPicker
       (st\<lparr>rowColors :=
            (if color \<noteq> [] then (rowColors st)(rowKey \<mapsto> color)
             else (rowColors st)(rowKey := None))\<rparr>)"

definition getRowColor :: "ColoringState \<Rightarrow> jsval \<Rightarrow> string" where
  \<comment> \<open>\<^verbatim>\<open>state.rowColors().get(rowKey) || ''\<close>\<close>
  "getRowColor st rowKey = (case rowColors st rowKey of None \<Rightarrow> [] | Some c \<Rightarrow> c)"

definition clearRowColor :: "ColoringState \<Rightarrow> jsval \<Rightarrow> ColoringState" where
  "clearRowColor st rowKey = setRowColor st rowKey []"

definition clearAllRowColors :: "ColoringState \<Rightarrow> ColoringState" where
  "clearAllRowColors st = st\<lparr>rowColors := Map.empty\<rparr>"

definition setColumnColor :: "ColoringState \<Rightarrow> string \<Rightarrow> string \<Rightarrow> ColoringState" where
  "setColumnColor st columnKey color =
     closeColorPicker
       (st\<lparr>columnColors :=
            (if color \<noteq> [] then (columnColors st)(columnKey \<mapsto> color)
             else (columnColors st)(columnKey := None))\<rparr>)"

definition getColumnColor :: "ColoringState \<Rightarrow> string \<Rightarrow> string" where
  "getColumnColor st columnKey = (case columnColors st columnKey of None \<Rightarrow> [] | Some c \<Rightarrow> c)"

definition clearColumnColor :: "ColoringState \<Rightarrow> string \<Rightarrow> ColoringState" where
  "clearColumnColor st columnKey = setColumnColor st columnKey []"

definition clearAllColumnColors :: "ColoringState \<Rightarrow> ColoringState" where
  "clearAllColumnColors st = st\<lparr>columnColors := Map.empty\<rparr>"

definition getCellKey :: "js_runtime \<Rightarrow> jsval \<Rightarrow> string \<Rightarrow> string" where
  \<comment> \<open>The template literal \<^verbatim>\<open>`${rowKey}:${columnKey}`\<close>\<close>
  "getCellKey rt rowKey columnKey = js_String rt rowKey @ '':'' @ columnKey"

definition setCellColor :: "js_runtime \<Rightarrow> ColoringState \<Rightarrow> jsval \<Rightarrow> string \<Rightarrow> string \<Rightarrow> ColoringState" where
  "setCellColor rt st rowKey columnKey color =
     (let k = getCellKey rt rowKey columnKey
      in closeColorPicker
           (st\<lparr>cellColors :=
                (if color \<noteq> [] then (cellColors st)(k \<mapsto> color)
                 else (cellColors st)(k := None))\<rparr>))"

definition getCellColor :: "js_runtime \<Rightarrow> ColoringState \<Rightarrow> jsval \<Rightarrow> string \<Rightarrow> string" where
  "getCellColor rt st rowKey columnKey =
     (let k = getCellKey rt rowKey columnKey
      in case cellColors st k of None \<Rightarrow> [] | Some c \<Rightarrow> c)"

definition clearCellColor :: "js_runtime \<Rightarrow> ColoringState \<Rightarrow> jsval \<Rightarrow> string \<Rightarrow> ColoringState" where
  "clearCellColor rt st rowKey columnKey = setCellColor rt st rowKey columnKey []"

definition clearAllCellColors :: "ColoringState \<Rightarrow> ColoringState" where
  "clearAllCellColors st = st\<lparr>cellColors := Map.empty\<rparr>"

definition getResolvedCellColor :: "js_runtime \<Rightarrow> ColoringState \<Rightarrow> jsval \<Rightarrow> string \<Rightarrow> string" where
  "getResolvedCellColor rt st rowKey columnKey =
     (let cellColor = getCellColor rt st rowKey columnKey
      in if cellColor \<noteq> [] then cellColor
         else (let rowColor = getRowColor st rowKey
               in if rowColor \<noteq> [] then rowColor
                  else (let columnColor = getColumnColor st columnKey
                        in if columnColor \<noteq> [] then columnColor else [])))"

definition clearAllColors :: "ColoringState \<Rightarrow> ColoringState" where
  "clearAllColors st = clearAllCellColors (clearAllColumnColors (clearAllRowColors st))"

text \<open>
  The coloring states that the operations of this file can produce from the initial one.
\<close>

inductive reachableColoring :: "js_runtime \<Rightarrow> ColoringState \<Rightarrow> bool" for rt :: js_runtime where
  rc_create: "reachableColoring rt createColoringState"
| rc_open: "reachableColoring rt st \<Longrightarrow> reachableColoring rt (openColorPicker st ctx)"
| rc_close: "reachableColoring rt st \<Longrightarrow> reachableColoring rt (closeColorPicker st)"
| rc_setRow: "reachableColoring rt st \<Longrightarrow> reachableColoring rt (setRowColor st rowKey color)"
| rc_clearRow: "reachableColoring rt st \<Longrightarrow> reachableColoring rt (clearRowColor st rowKey)"
| rc_clearAllRow: "reachableColoring rt st \<Longrightarrow> reachableColoring rt (clearAllRowColors st)"
| rc_setColumn:
    "reachableColoring rt st \<Longrightarrow> reachableColoring rt (setColumnColor st columnKey color)"
| rc_clearColumn:
    "reachableColoring rt st \<Longrightarrow> reachableColoring rt (clearColumnColor st columnKey)"
| rc_clearAllColumn: "reachableColoring rt st \<Longrightarrow> reachableColoring rt (clearAllColumnColors st)"
| rc_setCell:
    "reachableColoring rt st \<Longrightarrow> reachableColoring rt (setCellColor rt st rowKey columnKey color)"
| rc_clearCell:
    "reachableColoring rt st \<Longrightarrow> reachableColoring rt (clearCellColor rt st rowKey columnKey)"
| rc_clearAllCell: "reachableColoring rt st \<Longrightarrow> reachableColoring rt (clearAllCellColors st)"
| rc_clearAll: "reachableColoring rt st \<Longrightarrow> reachableColoring rt (clearAllColors st)"

definition noEmptyColor :: "('k \<rightharpoonup> string) \<Rightarrow> bool" where
  "noEmptyColor m = ([] \<notin> ran m)"

definition coloringInvariant :: "ColoringState \<Rightarrow> bool" where
  "coloringInvariant st =
     (noEmptyColor (rowColors st) \<and> noEmptyColor (columnColors st) \<and> noEmptyColor (cellColors st))"

section \<open>table.ts: the derived-view pipeline\<close>

text \<open>
  The component's inputs and feature states. Each \<^verbatim>\<open>computed\<close> signal of the class is
  a function of this record.
\<close>

record Table =
  tbl_data :: "row list"
  tbl_columns :: "ColumnConfig list"
  tbl_config :: TableConfig
  sortingState :: SortingState
  filteringState :: FilteringState
  selectionState :: SelectionState
  paginationState :: PaginationState
  virtualScrollState :: real
  computedColumns :: "ComputedColumnDefinition list"

definition mergedConfig :: "Table \<Rightarrow> TableConfig" where
  "mergedConfig t = mergeConfig DEFAULT_TABLE_CONFIG (tbl_config t)"

definition allColumns :: "Table \<Rightarrow> ColumnConfig list" where
  "allColumns t =
     (let baseColumns = tbl_columns t;
          computedCols = computedColumns t;
          computedColumnConfigs =
            map (\<lambda>(cc, idx). computedColumnToColumnConfig cc (of_nat (length baseColumns + idx)))
              (zip computedCols [0 ..< length computedCols])
      in baseColumns @ computedColumnConfigs)"

definition filteredData :: "js_runtime \<Rightarrow> Table \<Rightarrow> row list" where
  "filteredData rt t = applyFiltering rt (tbl_data t) (filteringState t)"

definition sortedData :: "js_runtime \<Rightarrow> Table \<Rightarrow> row list" where
  "sortedData rt t =
     applySorting (filteredData rt t) (sortingState t) (tbl_columns t) (defaultCompare rt)"

definition paginatedData :: "js_runtime \<Rightarrow> Table \<Rightarrow> row list" where
  "paginatedData rt t =
     applyPagination (sortedData rt t) (paginationState t)
       (case enablePagination (mergedConfig t) of None \<Rightarrow> True | Some b \<Rightarrow> b)"

definition virtualScrollData :: "js_runtime \<Rightarrow> Table \<Rightarrow> row VirtualScrollData" where
  "virtualScrollData rt t =
     (let cfg = getVirtualScrollConfig (mergedConfig t)
      in computeVirtualScrollData rt (sortedData rt t) (paginatedData rt t) (virtualScrollState t)
           cfg)"

definition totalItems :: "js_runtime \<Rightarrow> Table \<Rightarrow> real" where
  "totalItems rt t = of_nat (length (filteredData rt t))"

definition totalPages :: "js_runtime \<Rightarrow> Table \<Rightarrow> real" where
  "totalPages rt t = computeTotalPages (totalItems rt t) (pageSize (paginationState t))"

definition allSelected :: "js_runtime \<Rightarrow> Table \<Rightarrow> bool" where
  "allSelected rt t =
     (let keyField = keyFieldOf (mergedConfig t)
      in computeAllSelected (paginatedData rt t) (selectedRows (selectionState t)) keyField)"

definition selectionDeps :: "js_runtime \<Rightarrow> Table \<Rightarrow> SelectionDeps" where
  "selectionDeps rt t =
     \<lparr> deps_data = tbl_data t, deps_paginatedData = paginatedData rt t,
       deps_config = mergedConfig t \<rparr>"

text \<open>The methods of the class return the new component state and the emitted events.\<close>

definition tbl_toggleRowSelection :: "js_runtime \<Rightarrow> row \<Rightarrow> Table \<Rightarrow> Table \<times> RowSelectionEvent list" where
  "tbl_toggleRowSelection rt r t =
     (let (st', evs) = toggleRowSelection r (selectionState t) (selectionDeps rt t)
      in (t\<lparr>selectionState := st'\<rparr>, evs))"

definition tbl_toggleAllSelection :: "js_runtime \<Rightarrow> Table \<Rightarrow> Table \<times> RowSelectionEvent list" where
  "tbl_toggleAllSelection rt t =
     (let (st', evs) = toggleAllSelection (allSelected rt t) (selectionState t) (selectionDeps rt t)
      in (t\<lparr>selectionState := st'\<rparr>, evs))"

definition tbl_goToPage :: "js_runtime \<Rightarrow> page_arg \<Rightarrow> Table \<Rightarrow> Table \<times> PageChangeEvent list" where
  "tbl_goToPage rt pg t =
     (let (st', evs) = goToPage pg (paginationState t) (totalItems rt t)
      in (t\<lparr>paginationState := st'\<rparr>, evs))"

section \<open>A runtime for evaluation at concrete inputs\<close>

text \<open>
  The theorems below hold for every runtime. Evaluating the model at a concrete input
  needs one: this instance renders the integral part of a number in decimal, reads a string
  of decimal digits as a number (the empty string as zero, anything else as \<^verbatim>\<open>NaN\<close>),
  compares strings by code point and computes with the exact operations. It agrees with
  JavaScript on integral numbers, on digit strings and on every operation whose exact
  result is a double, and it is used at such inputs only.
\<close>

fun natDigits :: "nat \<Rightarrow> string" where
  "natDigits n =
     (if n < 10 then [char_of (48 + n)] else natDigits (n div 10) @ [char_of (48 + n mod 10)])"

declare natDigits.simps [simp del]

definition intString :: "int \<Rightarrow> string" where
  "intString i = (if i < 0 then CHR ''-'' # natDigits (nat (- i)) else natDigits (nat i))"

definition isDigit :: "char \<Rightarrow> bool" where
  "isDigit c = (48 \<le> (of_char c :: nat) \<and> (of_char c :: nat) \<le> 57)"

definition digitsValue :: "string \<Rightarrow> nat" where
  "digitsValue s = foldl (\<lambda>acc c. 10 * acc + (of_char c - 48)) 0 s"

definition codePointCompare :: "string \<Rightarrow> string \<Rightarrow> real" where
  "codePointCompare a b = (if a = b then 0 else if a < b then - 1 else 1)"

definition sampleRuntime :: js_runtime where
  "sampleRuntime =
     \<lparr> NumberToString = (\<lambda>x. intString \<lfloor>x\<rfloor>),
       StringToNumber = (\<lambda>s. if list_all isDigit s then Some (of_nat (digitsValue s)) else None),
       localeCompare = codePointCompare,
       numAdd = (\<lambda>x y. x + y),
       numSub = (\<lambda>x y. x - y),
       numMul = (\<lambda>x y. x * y),
       numDiv = (\<lambda>x y. x / y) \<rparr>"

section \<open>Concrete inputs\<close>

text \<open>
  The inputs at which the theorems below are evaluated: the specification's status column,
  a column with two ordered conditions, a column arrangement with frozen columns on both
  sides, and a coloring state built by two assignments.
\<close>

definition statusCondition :: ColumnCondition where
  "statusCondition =
     \<lparr> cond_id = ''cond_1'', sourceColumn = ''status'', cond_operator = CondEquals,
       compareValue = ''true'', thenValue = ''Active'', elseValue = [] \<rparr>"

definition statusColumn :: ComputedColumnDefinition where
  "statusColumn =
     \<lparr> cc_key = ''computed_1'', cc_title = ''State'', conditions = [statusCondition],
       defaultValue = ''Inactive'' \<rparr>"

definition goldCondition :: ColumnCondition where
  "goldCondition =
     \<lparr> cond_id = ''cond_2'', sourceColumn = ''score'', cond_operator = CondGreaterThan,
       compareValue = ''90'', thenValue = ''Gold'', elseValue = ''Bronze'' \<rparr>"

definition silverCondition :: ColumnCondition where
  "silverCondition =
     \<lparr> cond_id = ''cond_3'', sourceColumn = ''score'', cond_operator = CondGreaterThan,
       compareValue = ''50'', thenValue = ''Silver'', elseValue = ''Iron'' \<rparr>"

definition tierColumn :: ComputedColumnDefinition where
  "tierColumn =
     \<lparr> cc_key = ''computed_2'', cc_title = ''Tier'',
       conditions = [goldCondition, silverCondition], defaultValue = [] \<rparr>"

definition exampleColumn ::
  "string \<Rightarrow> real \<Rightarrow> real option \<Rightarrow> bool option \<Rightarrow> FrozenPosition option \<Rightarrow> ColumnConfig" where
  "exampleColumn k ord w fr pos =
     \<lparr> col_key = k, col_title = k, col_order = ord, col_width = w, col_sortable = None,
       col_filterable = None, col_resizable = None, col_frozen = fr, col_frozenPosition = pos,
       col_visible = None, col_filterType = None, col_sortComparator = None,
       col_isComputed = None \<rparr>"

definition exampleColumns :: "ColumnConfig list" where
  "exampleColumns =
     [exampleColumn ''id'' 0 (Some 80) (Some True) None,
      exampleColumn ''name'' 1 (Some 200) (Some True) (Some FrozenLeft),
      exampleColumn ''email'' 2 None None None,
      exampleColumn ''total'' 3 (Some 120) (Some True) (Some FrozenRight),
      exampleColumn ''actions'' 4 (Some 90) (Some True) (Some FrozenRight)]"

definition coloredState :: ColoringState where
  "coloredState =
     setCellColor sampleRuntime (setColumnColor createColoringState ''colX'' ''#dbeafe'')
       (VStr ''row1'') ''colX'' ''#fee2e2''"

text \<open>
  Tables: the component as created (no rows, the configuration input \<^verbatim>\<open>{}\<close>), a table
  of 25 rows, a table of three rows with virtual scrolling enabled and page size 2 (the
  constructor's effect copies \<^verbatim>\<open>config.pageSize\<close> into the pagination state), a column
  with a comparator that honours the requested direction, a table with the computed status
  column, filtered and sorted on it, and a table in single selection mode.
\<close>

definition emptyConfig :: TableConfig where
  "emptyConfig =
     \<lparr> enablePagination = None, enableRowSelection = None, enableVirtualScroll = None,
       virtualScrollItemHeight = None, virtualScrollBufferSize = None, cfg_pageSize = None,
       selectionMode = None, showSelectionCheckbox = None, tableHeight = None,
       rowKeyField = None \<rparr>"

definition threeRows :: "row list" where
  "threeRows = [[(''id'', VNum 1)], [(''id'', VNum 2)], [(''id'', VNum 3)]]"

definition emptyTable :: Table where
  "emptyTable =
     \<lparr> tbl_data = [], tbl_columns = [], tbl_config = emptyConfig,
       sortingState = createSortingState, filteringState = createFilteringState,
       selectionState = createSelectionState, paginationState = createPaginationState 10,
       virtualScrollState = 0, computedColumns = [] \<rparr>"

definition pagedTable :: Table where
  "pagedTable = emptyTable \<lparr> tbl_data := map (\<lambda>i. [(''id'', VNum (of_nat i))]) [1 ..< 26] \<rparr>"

definition windowedTable :: Table where
  "windowedTable =
     emptyTable
       \<lparr> tbl_data := threeRows,
         tbl_config := emptyConfig \<lparr> enableVirtualScroll := Some True, cfg_pageSize := Some 2 \<rparr>,
         paginationState := createPaginationState 2 \<rparr>"

definition numberOf :: "jsval \<Rightarrow> real" where
  "numberOf v = (case v of VNum x \<Rightarrow> x | _ \<Rightarrow> 0)"

definition directionAwareComparator :: "row \<Rightarrow> row \<Rightarrow> SortDirection \<Rightarrow> real" where
  "directionAwareComparator a b dir =
     (let diff = numberOf (getField a ''n'') - numberOf (getField b ''n'')
      in if dir = Desc then - diff else diff)"

definition comparatorColumn :: ColumnConfig where
  "comparatorColumn =
     \<lparr> col_key = ''n'', col_title = ''N'', col_order = 0, col_width = None, col_sortable = None,
       col_filterable = None, col_resizable = None, col_frozen = None,
       col_frozenPosition = None, col_visible = None, col_filterType = None,
       col_sortComparator = Some directionAwareComparator, col_isComputed = None \<rparr>"

definition descByN :: SortConfig where
  "descByN = \<lparr> sort_key = ''n'', sort_direction = Desc, sort_order = 1 \<rparr>"

definition activeRow :: row where
  "activeRow = [(''id'', VNum 1), (''status'', VBool True)]"

definition inactiveRow :: row where
  "inactiveRow = [(''id'', VNum 2), (''status'', VBool False)]"

definition computedTable :: Table where
  "computedTable =
     emptyTable
       \<lparr> tbl_data := [inactiveRow, activeRow],
         computedColumns := [statusColumn] \<rparr>"

definition filteredByComputed :: Table where
  "filteredByComputed =
     computedTable
       \<lparr> filteringState :=
           fst (handleFilterInput (computedColumnToColumnConfig statusColumn 0) ''Active''
                  createFilteringState) \<rparr>"

definition sortedByComputed :: Table where
  "sortedByComputed =
     computedTable
       \<lparr> sortingState :=
           \<lparr> sorts = [\<lparr> sort_key = ''computed_1'', sort_direction = Asc, sort_order = 1 \<rparr>] \<rparr> \<rparr>"

definition twoRows :: "row list" where
  "twoRows = [[(''id'', VNum 1)], [(''id'', VNum 2)]]"

definition singleModeTable :: Table where
  "singleModeTable =
     emptyTable
       \<lparr> tbl_data := twoRows,
         tbl_config := emptyConfig \<lparr> selectionMode := Some Single \<rparr> \<rparr>"

section \<open>Properties of the pipeline stages\<close>

subsection \<open>Virtualization windowing\<close>

lemma js_slice_sublist: "sublist (js_slice xs s e) xs"
  unfolding js_slice_def Let_def
  by (meson sublist_order.order_trans sublist_take sublist_drop)

lemma computeVirtualScrollData_enabled:
  "vs_enabled cfg \<Longrightarrow>
   computeVirtualScrollData rt dat pag scrollTop cfg =
     \<lparr> visibleData =
         js_slice dat
           (max 0 (numSub rt (of_int \<lfloor>numDiv rt scrollTop (itemHeight cfg)\<rfloor>) (bufferSize cfg)))
           (min (of_nat (length dat))
              (numAdd rt
                 (max 0 (numSub rt (of_int \<lfloor>numDiv rt scrollTop (itemHeight cfg)\<rfloor>) (bufferSize cfg)))
                 (visibleCount rt cfg))),
       startIndex =
         max 0 (numSub rt (of_int \<lfloor>numDiv rt scrollTop (itemHeight cfg)\<rfloor>) (bufferSize cfg)),
       endIndex =
         min (of_nat (length dat))
           (numAdd rt
              (max 0 (numSub rt (of_int \<lfloor>numDiv rt scrollTop (itemHeight cfg)\<rfloor>) (bufferSize cfg)))
              (visibleCount rt cfg)),
       offsetY =
         numMul rt
           (max 0 (numSub rt (of_int \<lfloor>numDiv rt scrollTop (itemHeight cfg)\<rfloor>) (bufferSize cfg)))
           (itemHeight cfg),
       totalHeight = numMul rt (of_nat (length dat)) (itemHeight cfg) \<rparr>"
  unfolding computeVirtualScrollData_def Let_def by (simp only: if_False not_True_eq_False simp_thms)

lemma computeVirtualScrollData_disabled:
  "\<not> vs_enabled cfg \<Longrightarrow>
   computeVirtualScrollData rt dat pag scrollTop cfg =
     \<lparr> visibleData = pag, startIndex = 0, endIndex = of_nat (length pag), offsetY = 0,
       totalHeight = numMul rt (of_nat (length pag)) (itemHeight cfg) \<rparr>"
  unfolding computeVirtualScrollData_def by (simp only: if_True simp_thms)

lemma visibleCount_example:
  assumes "itemHeight cfg = 48" and "bufferSize cfg = 5" and "containerHeight cfg = 600"
    and "numDiv rt 600 48 = 25 / 2" and "numAdd rt 13 10 = 23"
  shows "visibleCount rt cfg = 23"
  by (simp add: visibleCount_def assms)

lemma js_slice_example: "length dat = 1000 \<Longrightarrow> js_slice dat 15 38 = take 23 (drop 15 dat)"
  by (simp add: js_slice_def js_trunc_def Let_def)

lemma sampleRuntime_arithmetic:
  "numAdd sampleRuntime x y = x + y"
  "numSub sampleRuntime x y = x - y"
  "numMul sampleRuntime x y = x * y"
  "numDiv sampleRuntime x y = x / y"
  by (simp_all add: sampleRuntime_def)

text \<open>
  The start index follows the runtime's quotient, not the exact one. The double nearest to
  28.8 is \<open>8106479329266893 / 2^48\<close>; the exact quotient of 144 by it is below 5, and
  double division returns 5. With that quotient (and no buffer) the window starts at row 5.
\<close>

lemma startIndex_rounded_quotient:
  assumes "vs_enabled cfg" and "itemHeight cfg = 8106479329266893 / 281474976710656"
    and "bufferSize cfg = 0"
    and "numDiv rt 144 (8106479329266893 / 281474976710656) = 5" and "numSub rt 5 0 = 5"
  shows "startIndex (computeVirtualScrollData rt dat pag 144 cfg) = 5"
    and "\<lfloor>(144 :: real) / itemHeight cfg\<rfloor> = 4"
proof -
  show "startIndex (computeVirtualScrollData rt dat pag 144 cfg) = 5"
    by (simp add: computeVirtualScrollData_enabled assms)
  show "\<lfloor>(144 :: real) / itemHeight cfg\<rfloor> = 4"
    by (simp add: assms(2) floor_eq_iff)
qed

text \<open>
  Claim C5. With virtual scrolling enabled (and a non-zero item height),
  \<^verbatim>\<open>computeVirtualScrollData\<close> returns
  \<open>startIndex = max(0, floor(scrollTop / itemHeight) - bufferSize)\<close>,
  \<open>endIndex = min(totalRows, startIndex + visibleCount)\<close> with
  \<open>visibleCount = ceil(containerHeight / itemHeight) + 2 * bufferSize\<close>,
  \<open>offsetY = startIndex * itemHeight\<close>, \<open>totalHeight = totalRows * itemHeight\<close> and
  the slice of the rows between the two indices, where the quotients, sums, difference and
  products are those of JavaScript's double arithmetic (the runtime's operations), for every
  runtime. For item height 48, buffer 5, container height 600, scroll offset 960 and 1000
  rows the indices are 15 and 38 and the count is 23: there the exact results 20, 12.5, 15,
  23 and 38 are doubles, so they are the runtime's results. Disabled, it returns the
  paginated rows unchanged, with indices 0 and their length.
\<close>

theorem C5_computeVirtualScrollData:
  "(vs_enabled cfg \<and> itemHeight cfg \<noteq> 0 \<longrightarrow>
      startIndex (computeVirtualScrollData rt dat pag scrollTop cfg)
        = max 0 (numSub rt (of_int \<lfloor>numDiv rt scrollTop (itemHeight cfg)\<rfloor>) (bufferSize cfg))
    \<and> visibleCount rt cfg
        = numAdd rt (of_int \<lceil>numDiv rt (containerHeight cfg) (itemHeight cfg)\<rceil>)
            (2 * bufferSize cfg)
    \<and> endIndex (computeVirtualScrollData rt dat pag scrollTop cfg)
        = min (of_nat (length dat))
            (numAdd rt (startIndex (computeVirtualScrollData rt dat pag scrollTop cfg))
               (visibleCount rt cfg))
    \<and> offsetY (computeVirtualScrollData rt dat pag scrollTop cfg)
        = numMul rt (startIndex (computeVirtualScrollData rt dat pag scrollTop cfg)) (itemHeight cfg)
    \<and> totalHeight (computeVirtualScrollData rt dat pag scrollTop cfg)
        = numMul rt (of_nat (length dat)) (itemHeight cfg)
    \<and> visibleData (computeVirtualScrollData rt dat pag scrollTop cfg)
        = js_slice dat (startIndex (computeVirtualScrollData rt dat pag scrollTop cfg))
            (endIndex (computeVirtualScrollData rt dat pag scrollTop cfg)))
   \<and> (vs_enabled cfg \<and> itemHeight cfg = 48 \<and> bufferSize cfg = 5 \<and> containerHeight cfg = 600
        \<and> scrollTop = 960 \<and> length dat = 1000
        \<and> numDiv rt 960 48 = 20 \<and> numDiv rt 600 48 = 25 / 2 \<and> numSub rt 20 5 = 15
        \<and> numAdd rt 13 10 = 23 \<and> numAdd rt 15 23 = 38 \<longrightarrow>
      startIndex (computeVirtualScrollData rt dat pag scrollTop cfg) = 15
    \<and> visibleCount rt cfg = 23
    \<and> endIndex (computeVirtualScrollData rt dat pag scrollTop cfg) = 38
    \<and> visibleData (computeVirtualScrollData rt dat pag scrollTop cfg) = take 23 (drop 15 dat))
   \<and> (\<not> vs_enabled cfg \<longrightarrow>
      visibleData (computeVirtualScrollData rt dat pag scrollTop cfg) = pag
    \<and> startIndex (computeVirtualScrollData rt dat pag scrollTop cfg) = 0
    \<and> endIndex (computeVirtualScrollData rt dat pag scrollTop cfg) = of_nat (length pag))"
proof (intro conjI impI)
  assume en: "vs_enabled cfg \<and> itemHeight cfg \<noteq> 0"
  note eq = computeVirtualScrollData_enabled [of cfg rt dat pag scrollTop]
  from en show "startIndex (computeVirtualScrollData rt dat pag scrollTop cfg)
        = max 0 (numSub rt (of_int \<lfloor>numDiv rt scrollTop (itemHeight cfg)\<rfloor>) (bufferSize cfg))"
    by (simp add: eq)
  show "visibleCount rt cfg
        = numAdd rt (of_int \<lceil>numDiv rt (containerHeight cfg) (itemHeight cfg)\<rceil>)
            (2 * bufferSize cfg)"
    by (simp add: visibleCount_def mult.commute)
  from en show "endIndex (computeVirtualScrollData rt dat pag scrollTop cfg)
        = min (of_nat (length dat))
            (numAdd rt (startIndex (computeVirtualScrollData rt dat pag scrollTop cfg))
               (visibleCount rt cfg))"
    by (simp add: eq)
  from en show "offsetY (computeVirtualScrollData rt dat pag scrollTop cfg)
        = numMul rt (startIndex (computeVirtualScrollData rt dat pag scrollTop cfg)) (itemHeight cfg)"
    by (simp add: eq)
  from en show "totalHeight (computeVirtualScrollData rt dat pag scrollTop cfg)
        = numMul rt (of_nat (length dat)) (itemHeight cfg)"
    by (simp add: eq)
  from en show "visibleData (computeVirtualScrollData rt dat pag scrollTop cfg)
        = js_slice dat (startIndex (computeVirtualScrollData rt dat pag scrollTop cfg))
            (endIndex (computeVirtualScrollData rt dat pag scrollTop cfg))"
    by (simp add: eq)
next
  assume ex: "vs_enabled cfg \<and> itemHeight cfg = 48 \<and> bufferSize cfg = 5 \<and> containerHeight cfg = 600
        \<and> scrollTop = 960 \<and> length dat = 1000
        \<and> numDiv rt 960 48 = 20 \<and> numDiv rt 600 48 = 25 / 2 \<and> numSub rt 20 5 = 15
        \<and> numAdd rt 13 10 = 23 \<and> numAdd rt 15 23 = 38"
  then have en: "vs_enabled cfg" and ih: "itemHeight cfg = 48" and bs: "bufferSize cfg = 5"
    and ch: "containerHeight cfg = 600" and st: "scrollTop = 960" and len: "length dat = 1000"
    and q1: "numDiv rt 960 48 = 20" and q2: "numDiv rt 600 48 = 25 / 2"
    and d1: "numSub rt 20 5 = 15" and a1: "numAdd rt 13 10 = 23" and a2: "numAdd rt 15 23 = 38"
    by simp_all
  have vc: "visibleCount rt cfg = 23"
    using ih bs ch q2 a1 by (rule visibleCount_example)
  note eq = computeVirtualScrollData_enabled [OF en]
  show s: "startIndex (computeVirtualScrollData rt dat pag scrollTop cfg) = 15"
    by (simp add: eq ih bs st q1 d1)
  from vc show "visibleCount rt cfg = 23" .
  show e: "endIndex (computeVirtualScrollData rt dat pag scrollTop cfg) = 38"
    by (simp add: eq ih bs st len q1 d1 vc a2)
  have "visibleData (computeVirtualScrollData rt dat pag scrollTop cfg) = js_slice dat 15 38"
    by (simp add: eq ih bs st len q1 d1 vc a2)
  with len show "visibleData (computeVirtualScrollData rt dat pag scrollTop cfg)
      = take 23 (drop 15 dat)"
    by (simp add: js_slice_example)
next
  assume dis: "\<not> vs_enabled cfg"
  note eq = computeVirtualScrollData_disabled [of cfg rt dat pag scrollTop]
  from dis show "visibleData (computeVirtualScrollData rt dat pag scrollTop cfg) = pag"
    by (simp add: eq)
  from dis show "startIndex (computeVirtualScrollData rt dat pag scrollTop cfg) = 0"
    by (simp add: eq)
  from dis show "endIndex (computeVirtualScrollData rt dat pag scrollTop cfg) = of_nat (length pag)"
    by (simp add: eq)
qed

text \<open>
  The statement of C5 at the specification's example and at a disabled configuration, with
  the exact operations (all results there are doubles).
\<close>

theorem C5_witness:
  "startIndex (computeVirtualScrollData sampleRuntime (replicate 1000 (0::nat)) [] 960
      \<lparr> vs_enabled = True, itemHeight = 48, bufferSize = 5, containerHeight = 600 \<rparr>) = 15
   \<and> endIndex (computeVirtualScrollData sampleRuntime (replicate 1000 (0::nat)) [] 960
      \<lparr> vs_enabled = True, itemHeight = 48, bufferSize = 5, containerHeight = 600 \<rparr>) = 38
   \<and> visibleCount sampleRuntime
        \<lparr> vs_enabled = True, itemHeight = 48, bufferSize = 5, containerHeight = 600 \<rparr> = 23
   \<and> offsetY (computeVirtualScrollData sampleRuntime (replicate 1000 (0::nat)) [] 960
      \<lparr> vs_enabled = True, itemHeight = 48, bufferSize = 5, containerHeight = 600 \<rparr>) = 720
   \<and> totalHeight (computeVirtualScrollData sampleRuntime (replicate 1000 (0::nat)) [] 960
      \<lparr> vs_enabled = True, itemHeight = 48, bufferSize = 5, containerHeight = 600 \<rparr>) = 48000
   \<and> visibleData (computeVirtualScrollData sampleRuntime [1, 2, 3 :: nat] [1, 2] 0
      \<lparr> vs_enabled = False, itemHeight = 48, bufferSize = 5, containerHeight = 600 \<rparr>) = [1, 2]"
  using C5_computeVirtualScrollData
          [of "\<lparr> vs_enabled = True, itemHeight = 48, bufferSize = 5, containerHeight = 600 \<rparr>"
              sampleRuntime "replicate 1000 (0::nat)" "[]" 960]
        C5_computeVirtualScrollData
          [of "\<lparr> vs_enabled = False, itemHeight = 48, bufferSize = 5, containerHeight = 600 \<rparr>"
              sampleRuntime "[1, 2, 3 :: nat]" "[1, 2]" 0]
  by (simp add: sampleRuntime_arithmetic)

subsection \<open>Pagination\<close>

text \<open>
  Claim C6. For a non-zero page size, \<^verbatim>\<open>goToPage(p)\<close> leaves the state unchanged and
  emits no event whenever \<open>p < 1\<close> or \<open>p > totalPages\<close>, where
  \<open>totalPages = ceil(totalItems / pageSize)\<close>, which is 0 for no items; inside the range
  it does move (so the guard is the only reason for the no-op). With 25 filtered rows and
  page size 10 there are 3 pages and \<^verbatim>\<open>goToPage(4)\<close> is rejected, also through the
  component's method.
\<close>

theorem C6_goToPage:
  "(pageSize st \<noteq> 0 \<and> (p < 1 \<or> p > computeTotalPages (of_nat n) (pageSize st)) \<longrightarrow>
      goToPage (PageNumber p) st (of_nat n) = (st, []))
   \<and> (pageSize st \<noteq> 0 \<longrightarrow> computeTotalPages (of_nat n) (pageSize st) = of_int \<lceil>of_nat n / pageSize st\<rceil>
        \<and> computeTotalPages 0 (pageSize st) = 0)
   \<and> (pageSize st \<noteq> 0 \<and> 1 \<le> p \<and> p \<le> computeTotalPages (of_nat n) (pageSize st) \<longrightarrow>
      goToPage (PageNumber p) st (of_nat n)
        = (st\<lparr>currentPage := p\<rparr>, [\<lparr> ev_page = p, ev_pageSize = pageSize st \<rparr>]))
   \<and> (pageSize st = 10 \<longrightarrow> computeTotalPages 25 (pageSize st) = 3
        \<and> goToPage (PageNumber 4) st 25 = (st, []))
   \<and> (length (filteredData rt t) = 25 \<and> pageSize (paginationState t) = 10 \<longrightarrow>
        tbl_goToPage rt (PageNumber 4) t = (t, []))"
  by (auto simp add: goToPage_def computeTotalPages_def tbl_goToPage_def totalItems_def Let_def)

lemma pagedTable_filtered: "length (filteredData sampleRuntime pagedTable) = 25"
  by (simp add: filteredData_def applyFiltering_def pagedTable_def emptyTable_def emptyConfig_def
      createFilteringState_def)

lemma pagedTable_pageSize: "pageSize (paginationState pagedTable) = 10"
  by (simp add: pagedTable_def emptyTable_def emptyConfig_def createPaginationState_def)

text \<open>
  The statement of C6 with 25 items and page size 10: page 4 is rejected, page 3 is not;
  the component's method rejects page 4 on the table of 25 rows.
\<close>

theorem C6_witness:
  "goToPage (PageNumber 4) \<lparr> currentPage = 1, pageSize = 10 \<rparr> (of_nat 25)
     = (\<lparr> currentPage = 1, pageSize = 10 \<rparr>, [])
   \<and> goToPage (PageNumber 3) \<lparr> currentPage = 1, pageSize = 10 \<rparr> (of_nat 25)
     = (\<lparr> currentPage = 3, pageSize = 10 \<rparr>, [\<lparr> ev_page = 3, ev_pageSize = 10 \<rparr>])
   \<and> computeTotalPages (of_nat 25) 10 = 3
   \<and> computeTotalPages 0 10 = 0
   \<and> tbl_goToPage sampleRuntime (PageNumber 4) pagedTable = (pagedTable, [])"
  using C6_goToPage [of "\<lparr> currentPage = 1, pageSize = 10 \<rparr>" 4 25 sampleRuntime pagedTable]
        C6_goToPage [of "\<lparr> currentPage = 1, pageSize = 10 \<rparr>" 3 25 sampleRuntime pagedTable]
        pagedTable_filtered pagedTable_pageSize
  by (simp add: computeTotalPages_def)

subsection \<open>Filtering\<close>

lemma applyFiltering_filter:
  "applyFiltering rt dat st = filter (\<lambda>r. list_all (applyFilterToRow rt r) (filters st)) dat"
  by (cases "filters st") (simp_all add: applyFiltering_def Let_def)

lemma handleFilterInput_filters:
  "filters (fst (handleFilterInput column val st)) =
     filter (\<lambda>f. filter_key f \<noteq> col_key column) (filters st) @
     (if js_trim val \<noteq> [] then
        [\<lparr> filter_key = col_key column, filter_value = FPrim (VStr (js_trim val)),
           filter_operator =
             getDefaultOperator (case col_filterType column of None \<Rightarrow> FtText | Some ft \<Rightarrow> ft) \<rparr>]
      else [])"
  by (simp add: handleFilterInput_def Let_def)

lemma filter_key_count:
  "length (filter (\<lambda>f. filter_key f = k) (filters (fst (handleFilterInput column val st))))
     \<le> (if k = col_key column then 1 else length (filter (\<lambda>f. filter_key f = k) (filters st)))"
proof -
  have "filter (\<lambda>f. filter_key f = k) (filter (\<lambda>f. filter_key f \<noteq> col_key column) (filters st))
        = (if k = col_key column then [] else filter (\<lambda>f. filter_key f = k) (filters st))"
    by (induction "filters st" arbitrary: st) (auto simp: filter_empty_conv intro: filter_cong)
  then show ?thesis
    by (simp add: handleFilterInput_filters)
qed

text \<open>
  Claim C7. \<^verbatim>\<open>applyFiltering\<close> keeps, in their order, exactly the rows on which every
  active filter's predicate holds: its result is no longer than its input, is a
  subsequence of it, is the input itself when there is no active filter, and filtering
  again changes nothing. At most one filter per column: after \<^verbatim>\<open>handleFilterInput\<close>
  on a column the filter list holds at most one entry for that column.
\<close>

theorem C7_applyFiltering:
  "applyFiltering rt dat st = filter (\<lambda>r. list_all (applyFilterToRow rt r) (filters st)) dat
   \<and> length (applyFiltering rt dat st) \<le> length dat
   \<and> subseq (applyFiltering rt dat st) dat
   \<and> applyFiltering rt dat (st\<lparr>filters := []\<rparr>) = dat
   \<and> applyFiltering rt (applyFiltering rt dat st) st = applyFiltering rt dat st
   \<and> length (filter (\<lambda>f. filter_key f = col_key column)
               (filters (fst (handleFilterInput column val st)))) \<le> 1"
proof (intro conjI)
  show "applyFiltering rt dat st = filter (\<lambda>r. list_all (applyFilterToRow rt r) (filters st)) dat"
    by (rule applyFiltering_filter)
  show "length (applyFiltering rt dat st) \<le> length dat"
    by (simp add: applyFiltering_filter)
  show "subseq (applyFiltering rt dat st) dat"
    by (simp add: applyFiltering_filter)
  show "applyFiltering rt dat (st\<lparr>filters := []\<rparr>) = dat"
    by (simp add: applyFiltering_def)
  show "applyFiltering rt (applyFiltering rt dat st) st = applyFiltering rt dat st"
    by (simp add: applyFiltering_filter)
  show "length (filter (\<lambda>f. filter_key f = col_key column)
               (filters (fst (handleFilterInput column val st)))) \<le> 1"
    using filter_key_count [of "col_key column" column val st] by simp
qed

subsection \<open>Computed columns\<close>

lemma firstMatchingThen_append:
  "list_all (\<lambda>c. \<not> evaluateCondition rt r c) pre \<Longrightarrow>
   firstMatchingThen rt r (pre @ rest) = firstMatchingThen rt r rest"
  by (induction pre) simp_all

lemma firstMatchingThen_none:
  "list_all (\<lambda>c. \<not> evaluateCondition rt r c) cs \<Longrightarrow> firstMatchingThen rt r cs = None"
  by (induction cs) simp_all

lemma toLowerCase_true: "toLowerCase ''true'' = ''true''"
  by (simp add: toLowerCase_def lowerChar_def)

text \<open>
  Claim C9. \<^verbatim>\<open>computeColumnValue\<close> returns the \<^verbatim>\<open>thenValue\<close> of the first
  condition, in list order, that holds on the row. If none holds it returns
  \<^verbatim>\<open>defaultValue\<close>, or the first condition's \<^verbatim>\<open>elseValue\<close> when the default is
  empty (the empty string when there is no condition). With the single condition
  \<open>status equals 'true' then 'Active'\<close> and default \<open>'Inactive'\<close> the result is
  \<open>'Active'\<close> exactly for the rows whose \<open>status\<close>, coerced to a lower-case string, is
  \<open>'true'\<close> (so for the boolean \<open>true\<close>) and \<open>'Inactive'\<close> for every other row.
\<close>

theorem C9_computeColumnValue:
  "(conditions d = pre @ c # post \<and> list_all (\<lambda>x. \<not> evaluateCondition rt r x) pre
      \<and> evaluateCondition rt r c \<longrightarrow>
      computeColumnValue rt r d = thenValue c)
   \<and> (list_all (\<lambda>x. \<not> evaluateCondition rt r x) (conditions d) \<longrightarrow>
      computeColumnValue rt r d =
        (if defaultValue d \<noteq> [] then defaultValue d
         else (case conditions d of [] \<Rightarrow> [] | c0 # _ \<Rightarrow> elseValue c0)))
   \<and> (conditions d = [\<lparr> cond_id = i, sourceColumn = ''status'', cond_operator = CondEquals,
                         compareValue = ''true'', thenValue = ''Active'', elseValue = e \<rparr>]
      \<and> defaultValue d = ''Inactive'' \<longrightarrow>
      computeColumnValue rt r d =
        (if toLowerCase (js_String rt (getField r ''status'')) = ''true''
         then ''Active'' else ''Inactive'')
      \<and> (getField r ''status'' = VBool True \<longrightarrow> computeColumnValue rt r d = ''Active'')
      \<and> (getField r ''status'' = VBool False \<longrightarrow> computeColumnValue rt r d = ''Inactive'')
      \<and> (getField r ''status'' = VUndefined \<longrightarrow> computeColumnValue rt r d = ''Inactive''))"
proof (intro conjI impI)
  assume "conditions d = pre @ c # post \<and> list_all (\<lambda>x. \<not> evaluateCondition rt r x) pre
      \<and> evaluateCondition rt r c"
  then show "computeColumnValue rt r d = thenValue c"
    by (simp add: computeColumnValue_def firstMatchingThen_append)
next
  assume "list_all (\<lambda>x. \<not> evaluateCondition rt r x) (conditions d)"
  then show "computeColumnValue rt r d =
        (if defaultValue d \<noteq> [] then defaultValue d
         else (case conditions d of [] \<Rightarrow> [] | c0 # _ \<Rightarrow> elseValue c0))"
    by (simp add: computeColumnValue_def firstMatchingThen_none split: list.splits)
next
  assume ex: "conditions d = [\<lparr> cond_id = i, sourceColumn = ''status'', cond_operator = CondEquals,
                         compareValue = ''true'', thenValue = ''Active'', elseValue = e \<rparr>]
      \<and> defaultValue d = ''Inactive''"
  then show main: "computeColumnValue rt r d =
        (if toLowerCase (js_String rt (getField r ''status'')) = ''true''
         then ''Active'' else ''Inactive'')"
    by (simp add: computeColumnValue_def evaluateCondition_def toLowerCase_true)
  {
    assume "getField r ''status'' = VBool True"
    with main show "computeColumnValue rt r d = ''Active''"
      by (simp add: js_String_def toLowerCase_true)
  }
  {
    assume "getField r ''status'' = VBool False"
    with main show "computeColumnValue rt r d = ''Inactive''"
      by (simp add: js_String_def toLowerCase_def lowerChar_def)
  }
  {
    assume "getField r ''status'' = VUndefined"
    with main show "computeColumnValue rt r d = ''Inactive''"
      by (simp add: js_String_def toLowerCase_def lowerChar_def)
  }
qed

lemma sample_StringToNumber_90: "StringToNumber sampleRuntime ''90'' = Some 90"
  by (simp add: sampleRuntime_def isDigit_def digitsValue_def)

lemma sample_StringToNumber_50: "StringToNumber sampleRuntime ''50'' = Some 50"
  by (simp add: sampleRuntime_def isDigit_def digitsValue_def)

lemma eval_gold_70: "\<not> evaluateCondition sampleRuntime [(''score'', VNum 70)] goldCondition"
  by (simp add: evaluateCondition_def goldCondition_def getField_def js_Number_def num_gt_def
      sample_StringToNumber_90)

lemma eval_silver_70: "evaluateCondition sampleRuntime [(''score'', VNum 70)] silverCondition"
  by (simp add: evaluateCondition_def silverCondition_def getField_def js_Number_def num_gt_def
      sample_StringToNumber_50)

lemma eval_gold_10: "\<not> evaluateCondition sampleRuntime [(''score'', VNum 10)] goldCondition"
  by (simp add: evaluateCondition_def goldCondition_def getField_def js_Number_def num_gt_def
      sample_StringToNumber_90)

lemma eval_silver_10: "\<not> evaluateCondition sampleRuntime [(''score'', VNum 10)] silverCondition"
  by (simp add: evaluateCondition_def silverCondition_def getField_def js_Number_def num_gt_def
      sample_StringToNumber_50)

text \<open>
  The statement of C9 at concrete rows: a row on which only the second condition holds, a
  row on which none holds (the default is empty, so the first condition's
  \<^verbatim>\<open>elseValue\<close> is returned), and the status column on three rows.
\<close>

theorem C9_witness:
  "computeColumnValue sampleRuntime [(''score'', VNum 70)] tierColumn = ''Silver''
   \<and> computeColumnValue sampleRuntime [(''score'', VNum 10)] tierColumn = ''Bronze''
   \<and> computeColumnValue sampleRuntime [(''status'', VBool True)] statusColumn = ''Active''
   \<and> computeColumnValue sampleRuntime [(''status'', VBool False)] statusColumn = ''Inactive''
   \<and> computeColumnValue sampleRuntime [(''name'', VStr ''Ann'')] statusColumn = ''Inactive''"
proof (intro conjI)
  show "computeColumnValue sampleRuntime [(''score'', VNum 70)] tierColumn = ''Silver''"
    using C9_computeColumnValue
            [of tierColumn "[goldCondition]" silverCondition "[]" sampleRuntime
                "[(''score'', VNum 70)]"]
          eval_gold_70 eval_silver_70
    by (simp add: tierColumn_def silverCondition_def)
  show "computeColumnValue sampleRuntime [(''score'', VNum 10)] tierColumn = ''Bronze''"
    using C9_computeColumnValue
            [of tierColumn "[]" goldCondition "[silverCondition]" sampleRuntime
                "[(''score'', VNum 10)]"]
          eval_gold_10 eval_silver_10
    by (simp add: tierColumn_def goldCondition_def)
  show "computeColumnValue sampleRuntime [(''status'', VBool True)] statusColumn = ''Active''"
    using C9_computeColumnValue
            [of statusColumn "[]" statusCondition "[]" sampleRuntime "[(''status'', VBool True)]"
                "''cond_1''" "[]"]
    by (simp add: statusColumn_def statusCondition_def getField_def js_String_def
        toLowerCase_def lowerChar_def)
  show "computeColumnValue sampleRuntime [(''status'', VBool False)] statusColumn = ''Inactive''"
    using C9_computeColumnValue
            [of statusColumn "[]" statusCondition "[]" sampleRuntime "[(''status'', VBool False)]"
                "''cond_1''" "[]"]
    by (simp add: statusColumn_def statusCondition_def getField_def js_String_def
        toLowerCase_def lowerChar_def)
  show "computeColumnValue sampleRuntime [(''name'', VStr ''Ann'')] statusColumn = ''Inactive''"
    using C9_computeColumnValue
            [of statusColumn "[]" statusCondition "[]" sampleRuntime "[(''name'', VStr ''Ann'')]"
                "''cond_1''" "[]"]
    by (simp add: statusColumn_def statusCondition_def getField_def js_String_def
        toLowerCase_def lowerChar_def)
qed

subsection \<open>Frozen-column offsets\<close>

lemma js_findIndex_nth:
  "distinct (map f xs) \<Longrightarrow> i < length xs \<Longrightarrow> js_findIndex (\<lambda>c. f c = f (xs ! i)) xs = int i"
proof (induction xs arbitrary: i)
  case Nil
  then show ?case by simp
next
  case (Cons x xs)
  show ?case
  proof (cases i)
    case 0
    then show ?thesis by simp
  next
    case (Suc j)
    with Cons.prems have j: "j < length xs" and d: "distinct (map f xs)"
      and nx: "f x \<notin> f ` set xs"
      by auto
    from j nx have "f x \<noteq> f (xs ! j)"
      by (metis imageI nth_mem)
    moreover from Cons.IH [OF d j] have "js_findIndex (\<lambda>c. f c = f (xs ! j)) xs = int j" .
    ultimately show ?thesis
      using Suc by (simp add: Let_def)
  qed
qed

lemma foldl_add_sum_list:
  "foldl (\<lambda>off c. off + g c) a xs = a + sum_list (map g xs)"
  for a :: real
  by (induction xs arbitrary: a) (simp_all add: add.assoc)

lemma getFrozenLeftOffset_distinct:
  assumes "distinct (map col_key fl)" and "i < length fl"
  shows "getFrozenLeftOffset rt (fl ! i) fl cfg =
     NumberToString rt
       ((if enableRowSelection cfg = Some True \<and> showSelectionCheckbox cfg = Some True
         then 48 else 0)
        + sum_list (map widthOrDefault (take i fl))) @ ''px''"
  using assms
  by (simp add: getFrozenLeftOffset_def Let_def js_findIndex_nth foldl_add_sum_list)

lemma getFrozenRightOffset_distinct:
  assumes "distinct (map col_key fr)" and "j < length fr"
  shows "getFrozenRightOffset rt (fr ! j) fr =
     NumberToString rt (sum_list (map widthOrDefault (drop (Suc j) fr))) @ ''px''"
proof -
  from assms have idx: "js_findIndex (\<lambda>c. col_key c = col_key (fr ! j)) fr = int j"
    by (rule js_findIndex_nth)
  have "nat (int j + 1) = Suc j" by simp
  then show ?thesis
    by (simp add: getFrozenRightOffset_def Let_def idx foldl_add_sum_list rev_map [symmetric]
        del: rev_map)
qed

lemma distinct_frozen:
  assumes "distinct (map col_key cols)"
  shows "distinct (map col_key (getFrozenLeftColumns cols))"
    and "distinct (map col_key (getFrozenRightColumns cols))"
  using assms by (simp_all add: getFrozenLeftColumns_def getFrozenRightColumns_def distinct_map_filter)

text \<open>
  Claim C8. For processed columns with distinct keys, the left offset of the \<open>i\<close>-th
  frozen-left column is the reserved 48 pixels (when row selection and the selection
  checkbox are both enabled) plus the sum of the widths of the frozen-left columns before
  it, and the right offset of the \<open>j\<close>-th frozen-right column is the sum of the widths of the
  frozen-right columns after it, each rendered with the suffix \<open>px\<close>. The width of a
  column is \<^verbatim>\<open>column.width || 150\<close>, as \<^verbatim>\<open>getColumnStyle\<close> renders it: the column's
  own width whenever that is present and non-zero.
\<close>

theorem C8_frozen_offsets:
  "(distinct (map col_key cols) \<and> i < length (getFrozenLeftColumns cols) \<longrightarrow>
      getFrozenLeftOffset rt (getFrozenLeftColumns cols ! i) (getFrozenLeftColumns cols) cfg =
        NumberToString rt
          ((if enableRowSelection cfg = Some True \<and> showSelectionCheckbox cfg = Some True
            then 48 else 0)
           + sum_list (map widthOrDefault (take i (getFrozenLeftColumns cols)))) @ ''px'')
   \<and> (distinct (map col_key cols) \<and> j < length (getFrozenRightColumns cols) \<longrightarrow>
      getFrozenRightOffset rt (getFrozenRightColumns cols ! j) (getFrozenRightColumns cols) =
        NumberToString rt
          (sum_list (map widthOrDefault (drop (Suc j) (getFrozenRightColumns cols)))) @ ''px'')
   \<and> (col_width c = Some w \<and> w \<noteq> 0 \<longrightarrow> widthOrDefault c = w)"
  by (simp add: getFrozenLeftOffset_distinct getFrozenRightOffset_distinct distinct_frozen
      widthOrDefault_def)

lemma sample_NumberToString_128: "NumberToString sampleRuntime 128 = ''128''"
  by code_simp

lemma sample_NumberToString_90: "NumberToString sampleRuntime 90 = ''90''"
  by code_simp

lemma example_frozen_left:
  "getFrozenLeftColumns exampleColumns =
     [exampleColumn ''id'' 0 (Some 80) (Some True) None,
      exampleColumn ''name'' 1 (Some 200) (Some True) (Some FrozenLeft)]"
  by (simp add: getFrozenLeftColumns_def exampleColumns_def exampleColumn_def)

lemma example_frozen_right:
  "getFrozenRightColumns exampleColumns =
     [exampleColumn ''total'' 3 (Some 120) (Some True) (Some FrozenRight),
      exampleColumn ''actions'' 4 (Some 90) (Some True) (Some FrozenRight)]"
  by (simp add: getFrozenRightColumns_def exampleColumns_def exampleColumn_def)

lemma example_distinct: "distinct (map col_key exampleColumns)"
  by (simp add: exampleColumns_def exampleColumn_def)

text \<open>
  The statement of C8 for the example arrangement: \<open>name\<close> follows the 80 pixel column
  \<open>id\<close> on the left (48 + 80), \<open>total\<close> precedes the 90 pixel column \<open>actions\<close> on the right.
\<close>

theorem C8_witness:
  "getFrozenLeftOffset sampleRuntime (exampleColumn ''name'' 1 (Some 200) (Some True) (Some FrozenLeft))
      (getFrozenLeftColumns exampleColumns) DEFAULT_TABLE_CONFIG = ''128px''
   \<and> getFrozenRightOffset sampleRuntime
        (exampleColumn ''total'' 3 (Some 120) (Some True) (Some FrozenRight))
        (getFrozenRightColumns exampleColumns) = ''90px''
   \<and> widthOrDefault (exampleColumn ''name'' 1 (Some 200) (Some True) (Some FrozenLeft)) = 200"
  using C8_frozen_offsets
          [of exampleColumns 1 sampleRuntime DEFAULT_TABLE_CONFIG 0
              "exampleColumn ''name'' 1 (Some 200) (Some True) (Some FrozenLeft)" 200]
        example_distinct
  by (simp add: example_frozen_left example_frozen_right DEFAULT_TABLE_CONFIG_def
      widthOrDefault_def exampleColumn_def sample_NumberToString_128 sample_NumberToString_90)

subsection \<open>Color resolution\<close>

lemma noEmptyColor_empty: "noEmptyColor Map.empty"
  by (simp add: noEmptyColor_def)

lemma noEmptyColor_upd: "noEmptyColor m \<Longrightarrow> color \<noteq> [] \<Longrightarrow> noEmptyColor (m(k \<mapsto> color))"
  by (auto simp: noEmptyColor_def ran_def)

lemma noEmptyColor_del: "noEmptyColor m \<Longrightarrow> noEmptyColor (m(k := None))"
  by (auto simp: noEmptyColor_def ran_def split: if_splits)

lemma noEmptyColor_lookup: "noEmptyColor m \<Longrightarrow> m k = Some c \<Longrightarrow> c \<noteq> []"
  by (auto simp: noEmptyColor_def ran_def)

lemma inv_create: "coloringInvariant createColoringState"
  by (simp add: coloringInvariant_def createColoringState_def noEmptyColor_empty)

lemma inv_openColorPicker: "coloringInvariant st \<Longrightarrow> coloringInvariant (openColorPicker st ctx)"
  by (simp add: coloringInvariant_def openColorPicker_def)

lemma inv_closeColorPicker: "coloringInvariant st \<Longrightarrow> coloringInvariant (closeColorPicker st)"
  by (simp add: coloringInvariant_def closeColorPicker_def)

lemma inv_setRowColor: "coloringInvariant st \<Longrightarrow> coloringInvariant (setRowColor st rowKey color)"
  by (simp add: coloringInvariant_def setRowColor_def closeColorPicker_def noEmptyColor_upd
      noEmptyColor_del)

lemma inv_setColumnColor:
  "coloringInvariant st \<Longrightarrow> coloringInvariant (setColumnColor st columnKey color)"
  by (simp add: coloringInvariant_def setColumnColor_def closeColorPicker_def noEmptyColor_upd
      noEmptyColor_del)

lemma inv_setCellColor:
  "coloringInvariant st \<Longrightarrow> coloringInvariant (setCellColor rt st rowKey columnKey color)"
  by (simp add: coloringInvariant_def setCellColor_def closeColorPicker_def noEmptyColor_upd
      noEmptyColor_del Let_def)

lemma inv_clearAllRowColors: "coloringInvariant st \<Longrightarrow> coloringInvariant (clearAllRowColors st)"
  by (simp add: coloringInvariant_def clearAllRowColors_def noEmptyColor_empty)

lemma inv_clearAllColumnColors:
  "coloringInvariant st \<Longrightarrow> coloringInvariant (clearAllColumnColors st)"
  by (simp add: coloringInvariant_def clearAllColumnColors_def noEmptyColor_empty)

lemma inv_clearAllCellColors: "coloringInvariant st \<Longrightarrow> coloringInvariant (clearAllCellColors st)"
  by (simp add: coloringInvariant_def clearAllCellColors_def noEmptyColor_empty)

lemma reachable_invariant: "reachableColoring rt st \<Longrightarrow> coloringInvariant st"
proof (induction rule: reachableColoring.induct)
  case rc_create
  show ?case by (rule inv_create)
next
  case (rc_clearAll st)
  then show ?case
    by (simp add: clearAllColors_def inv_clearAllRowColors inv_clearAllColumnColors
        inv_clearAllCellColors)
qed (simp_all add: inv_openColorPicker inv_closeColorPicker inv_setRowColor inv_setColumnColor
      inv_setCellColor inv_clearAllRowColors inv_clearAllColumnColors inv_clearAllCellColors
      clearRowColor_def clearColumnColor_def clearCellColor_def)

lemma resolved_cascade:
  assumes "coloringInvariant st"
  shows "getResolvedCellColor rt st rowKey columnKey =
     (case cellColors st (getCellKey rt rowKey columnKey) of
        Some c \<Rightarrow> c
      | None \<Rightarrow>
          (case rowColors st rowKey of
             Some c \<Rightarrow> c
           | None \<Rightarrow> (case columnColors st columnKey of Some c \<Rightarrow> c | None \<Rightarrow> [])))"
  using assms
  by (auto simp: getResolvedCellColor_def getCellColor_def getRowColor_def getColumnColor_def
      coloringInvariant_def Let_def split: option.splits dest: noEmptyColor_lookup)

lemma resolved_empty_iff:
  assumes "coloringInvariant st"
  shows "getResolvedCellColor rt st rowKey columnKey = [] \<longleftrightarrow>
     cellColors st (getCellKey rt rowKey columnKey) = None \<and> rowColors st rowKey = None
     \<and> columnColors st columnKey = None"
  using assms
  by (auto simp: resolved_cascade coloringInvariant_def split: option.splits
      dest: noEmptyColor_lookup)

text \<open>
  Claim C10. In every coloring state reachable by the operations of the feature, none of
  the three maps holds an empty color, and each setter keeps that; setting the empty color
  deletes the entry. Hence \<^verbatim>\<open>getResolvedCellColor\<close> is the first present assignment
  in the order cell, row, column, and it is the empty string exactly when the cell key,
  the row and the column all have no assignment.
\<close>

theorem C10_coloring:
  "reachableColoring rt st \<Longrightarrow>
     coloringInvariant st
     \<and> coloringInvariant (setRowColor st rk color)
     \<and> coloringInvariant (setColumnColor st ck color)
     \<and> coloringInvariant (setCellColor rt st rk ck color)
     \<and> rowColors (setRowColor st rk []) rk = None
     \<and> columnColors (setColumnColor st ck []) ck = None
     \<and> cellColors (setCellColor rt st rk ck []) (getCellKey rt rk ck) = None
     \<and> (getResolvedCellColor rt st rk ck = [] \<longleftrightarrow>
          cellColors st (getCellKey rt rk ck) = None \<and> rowColors st rk = None
          \<and> columnColors st ck = None)
     \<and> getResolvedCellColor rt st rk ck =
          (case cellColors st (getCellKey rt rk ck) of
             Some c \<Rightarrow> c
           | None \<Rightarrow>
               (case rowColors st rk of
                  Some c \<Rightarrow> c
                | None \<Rightarrow> (case columnColors st ck of Some c \<Rightarrow> c | None \<Rightarrow> [])))"
proof -
  assume "reachableColoring rt st"
  then have inv: "coloringInvariant st"
    by (rule reachable_invariant)
  show ?thesis
  proof (intro conjI)
    show "coloringInvariant st" by (rule inv)
    show "coloringInvariant (setRowColor st rk color)" using inv by (rule inv_setRowColor)
    show "coloringInvariant (setColumnColor st ck color)" using inv by (rule inv_setColumnColor)
    show "coloringInvariant (setCellColor rt st rk ck color)" using inv by (rule inv_setCellColor)
    show "rowColors (setRowColor st rk []) rk = None"
      by (simp add: setRowColor_def closeColorPicker_def)
    show "columnColors (setColumnColor st ck []) ck = None"
      by (simp add: setColumnColor_def closeColorPicker_def)
    show "cellColors (setCellColor rt st rk ck []) (getCellKey rt rk ck) = None"
      by (simp add: setCellColor_def closeColorPicker_def Let_def)
    show "getResolvedCellColor rt st rk ck = [] \<longleftrightarrow>
          cellColors st (getCellKey rt rk ck) = None \<and> rowColors st rk = None
          \<and> columnColors st ck = None"
      using inv by (rule resolved_empty_iff)
    show "getResolvedCellColor rt st rk ck =
          (case cellColors st (getCellKey rt rk ck) of
             Some c \<Rightarrow> c
           | None \<Rightarrow>
               (case rowColors st rk of
                  Some c \<Rightarrow> c
                | None \<Rightarrow> (case columnColors st ck of Some c \<Rightarrow> c | None \<Rightarrow> [])))"
      using inv by (rule resolved_cascade)
  qed
qed

lemma coloredState_reachable: "reachableColoring sampleRuntime coloredState"
  unfolding coloredState_def by (intro rc_setCell rc_setColumn rc_create)

text \<open>
  The statement of C10 at the state with a column color for \<open>colX\<close> and a cell color for
  \<open>(row1, colX)\<close>, and after the cell color is set to the empty string.
\<close>

theorem C10_witness:
  "getResolvedCellColor sampleRuntime coloredState (VStr ''row1'') ''colX'' = ''#fee2e2''
   \<and> getResolvedCellColor sampleRuntime coloredState (VStr ''row2'') ''colX'' = ''#dbeafe''
   \<and> getResolvedCellColor sampleRuntime coloredState (VStr ''row2'') ''colY'' = []
   \<and> getResolvedCellColor sampleRuntime
        (setCellColor sampleRuntime coloredState (VStr ''row1'') ''colX'' [])
        (VStr ''row1'') ''colX'' = ''#dbeafe''"
proof (intro conjI)
  note r = coloredState_reachable
  have cells: "cellColors coloredState = [''row1:colX'' \<mapsto> ''#fee2e2'']"
    and rows: "rowColors coloredState = Map.empty"
    and cols: "columnColors coloredState = [''colX'' \<mapsto> ''#dbeafe'']"
    by (simp_all add: coloredState_def setCellColor_def setColumnColor_def closeColorPicker_def
        createColoringState_def getCellKey_def js_String_def Let_def)
  show "getResolvedCellColor sampleRuntime coloredState (VStr ''row1'') ''colX'' = ''#fee2e2''"
    using C10_coloring [OF r, of "VStr ''row1''" _ "''colX''"]
    by (simp add: cells rows cols getCellKey_def js_String_def)
  show "getResolvedCellColor sampleRuntime coloredState (VStr ''row2'') ''colX'' = ''#dbeafe''"
    using C10_coloring [OF r, of "VStr ''row2''" _ "''colX''"]
    by (simp add: cells rows cols getCellKey_def js_String_def)
  show "getResolvedCellColor sampleRuntime coloredState (VStr ''row2'') ''colY'' = []"
    using C10_coloring [OF r, of "VStr ''row2''" _ "''colY''"]
    by (simp add: cells rows cols getCellKey_def js_String_def)
  have r': "reachableColoring sampleRuntime
      (setCellColor sampleRuntime coloredState (VStr ''row1'') ''colX'' [])"
    using r by (rule rc_setCell)
  show "getResolvedCellColor sampleRuntime
        (setCellColor sampleRuntime coloredState (VStr ''row1'') ''colX'' [])
        (VStr ''row1'') ''colX'' = ''#dbeafe''"
    using C10_coloring [OF r', of "VStr ''row1''" _ "''colX''"]
    by (simp add: cells rows cols getCellKey_def js_String_def setCellColor_def
        closeColorPicker_def Let_def)
qed

subsection \<open>Sorting\<close>

lemma sortEntryComparison_custom:
  "find (\<lambda>c. col_key c = sort_key srt) cols = Some c \<Longrightarrow> col_sortComparator c = Some cmp \<Longrightarrow>
   sortEntryComparison srt cols dc a b =
     (if sort_direction srt = Desc then - cmp a b (sort_direction srt)
      else cmp a b (sort_direction srt))"
  by (simp add: sortEntryComparison_def Let_def)

lemma sortEntryComparison_default:
  "find (\<lambda>c. col_key c = sort_key srt) cols = None \<or>
   (\<exists>c. find (\<lambda>c. col_key c = sort_key srt) cols = Some c \<and> col_sortComparator c = None) \<Longrightarrow>
   sortEntryComparison srt cols dc a b =
     (if sort_direction srt = Desc
      then - dc (getField a (sort_key srt)) (getField b (sort_key srt))
      else dc (getField a (sort_key srt)) (getField b (sort_key srt)))"
  by (auto simp add: sortEntryComparison_def Let_def)

text \<open>
  Claim C2, as amended. When the column of a sort entry has a custom comparator, the
  comparator receives the two rows and the requested direction, and its result is negated
  when the direction is \<open>desc\<close>, exactly as the default comparator's result is (the
  default comparator is applied to the two cells and never sees the direction). The rows
  are compared by the first entry, in ascending \<^verbatim>\<open>order\<close>, whose comparison is not zero.
\<close>

theorem C2_sortEntryComparison:
  "(find (\<lambda>c. col_key c = sort_key srt) cols = Some c \<and> col_sortComparator c = Some cmp \<longrightarrow>
      sortEntryComparison srt cols dc a b =
        (if sort_direction srt = Desc then - cmp a b (sort_direction srt)
         else cmp a b (sort_direction srt)))
   \<and> (find (\<lambda>c. col_key c = sort_key srt) cols = None \<or>
       (\<exists>c'. find (\<lambda>c. col_key c = sort_key srt) cols = Some c' \<and> col_sortComparator c' = None)
      \<longrightarrow>
      sortEntryComparison srt cols dc a b =
        (if sort_direction srt = Desc
         then - dc (getField a (sort_key srt)) (getField b (sort_key srt))
         else dc (getField a (sort_key srt)) (getField b (sort_key srt))))
   \<and> compareRows (srt # rest) cols dc a b =
        (if sortEntryComparison srt cols dc a b \<noteq> 0 then sortEntryComparison srt cols dc a b
         else compareRows rest cols dc a b)
   \<and> applySorting dat \<lparr> sorts = srt # rest \<rparr> cols dc =
        js_sort (compareRows (js_sort (\<lambda>x y. sort_order x - sort_order y) (srt # rest)) cols dc) dat"
proof (intro conjI impI)
  assume "find (\<lambda>c. col_key c = sort_key srt) cols = Some c \<and> col_sortComparator c = Some cmp"
  then show "sortEntryComparison srt cols dc a b =
        (if sort_direction srt = Desc then - cmp a b (sort_direction srt)
         else cmp a b (sort_direction srt))"
    by (simp add: sortEntryComparison_custom)
next
  assume "find (\<lambda>c. col_key c = sort_key srt) cols = None \<or>
       (\<exists>c'. find (\<lambda>c. col_key c = sort_key srt) cols = Some c' \<and> col_sortComparator c' = None)"
  then show "sortEntryComparison srt cols dc a b =
        (if sort_direction srt = Desc
         then - dc (getField a (sort_key srt)) (getField b (sort_key srt))
         else dc (getField a (sort_key srt)) (getField b (sort_key srt)))"
    by (rule sortEntryComparison_default)
next
  show "compareRows (srt # rest) cols dc a b =
        (if sortEntryComparison srt cols dc a b \<noteq> 0 then sortEntryComparison srt cols dc a b
         else compareRows rest cols dc a b)"
    by (simp add: Let_def)
  show "applySorting dat \<lparr> sorts = srt # rest \<rparr> cols dc =
        js_sort (compareRows (js_sort (\<lambda>x y. sort_order x - sort_order y) (srt # rest)) cols dc) dat"
    by (simp add: applySorting_def Let_def)
qed

lemma comparator_desc_1_2:
  "directionAwareComparator [(''n'', VNum 1)] [(''n'', VNum 2)] Desc = 1"
  by (simp add: directionAwareComparator_def numberOf_def getField_def)

lemma find_comparatorColumn:
  "find (\<lambda>c. col_key c = sort_key descByN) [comparatorColumn] = Some comparatorColumn"
  by (simp add: comparatorColumn_def descByN_def)

lemma entry_desc_1_2:
  "sortEntryComparison descByN [comparatorColumn] (defaultCompare sampleRuntime)
     [(''n'', VNum 1)] [(''n'', VNum 2)] = - 1"
  by (simp add: sortEntryComparison_def comparatorColumn_def descByN_def
      directionAwareComparator_def numberOf_def getField_def Let_def)

lemma desc_sort_ascending:
  "applySorting [[(''n'', VNum 1)], [(''n'', VNum 2)]] \<lparr> sorts = [descByN] \<rparr> [comparatorColumn]
     (defaultCompare sampleRuntime) = [[(''n'', VNum 1)], [(''n'', VNum 2)]]"
  by (simp add: applySorting_def js_sort_def entry_desc_1_2 Let_def)

text \<open>
  Claim C2 as stated fails: a comparator that honours the direction returns 1 for the rows
  with \<open>n = 1\<close> and \<open>n = 2\<close> under \<open>desc\<close>, and the comparison used for sorting is \<open>-1\<close>,
  not the comparator's result: the rows requested in descending order come out ascending.
\<close>

theorem C2_counterexample:
  "directionAwareComparator [(''n'', VNum 1)] [(''n'', VNum 2)] Desc = 1
   \<and> sortEntryComparison descByN [comparatorColumn] (defaultCompare sampleRuntime)
        [(''n'', VNum 1)] [(''n'', VNum 2)] = - 1
   \<and> sortEntryComparison descByN [comparatorColumn] (defaultCompare sampleRuntime)
        [(''n'', VNum 1)] [(''n'', VNum 2)]
       \<noteq> directionAwareComparator [(''n'', VNum 1)] [(''n'', VNum 2)] (sort_direction descByN)
   \<and> applySorting [[(''n'', VNum 1)], [(''n'', VNum 2)]] \<lparr> sorts = [descByN] \<rparr>
        [comparatorColumn] (defaultCompare sampleRuntime)
       = [[(''n'', VNum 1)], [(''n'', VNum 2)]]"
proof -
  have "sort_direction descByN = Desc"
    by (simp add: descByN_def)
  then show ?thesis
    by (simp add: comparator_desc_1_2 entry_desc_1_2 desc_sort_ascending)
qed

text \<open>
  The amended C2 at the same rows: with the custom comparator, without a column for the
  key, and with a column that has no comparator.
\<close>

theorem C2_witness:
  "sortEntryComparison descByN [comparatorColumn] (defaultCompare sampleRuntime)
     [(''n'', VNum 1)] [(''n'', VNum 2)]
     = - directionAwareComparator [(''n'', VNum 1)] [(''n'', VNum 2)] Desc
   \<and> sortEntryComparison descByN [] (defaultCompare sampleRuntime)
       [(''n'', VNum 1)] [(''n'', VNum 2)]
     = - defaultCompare sampleRuntime (VNum 1) (VNum 2)
   \<and> sortEntryComparison descByN [exampleColumn ''n'' 0 None None None]
       (defaultCompare sampleRuntime) [(''n'', VNum 1)] [(''n'', VNum 2)]
     = - defaultCompare sampleRuntime (VNum 1) (VNum 2)"
  using C2_sortEntryComparison
          [of descByN "[comparatorColumn]" comparatorColumn directionAwareComparator
              "defaultCompare sampleRuntime" "[(''n'', VNum 1)]" "[(''n'', VNum 2)]"]
        C2_sortEntryComparison
          [of descByN "[]" comparatorColumn directionAwareComparator
              "defaultCompare sampleRuntime" "[(''n'', VNum 1)]" "[(''n'', VNum 2)]"]
        C2_sortEntryComparison
          [of descByN "[exampleColumn ''n'' 0 None None None]" comparatorColumn
              directionAwareComparator
              "defaultCompare sampleRuntime" "[(''n'', VNum 1)]" "[(''n'', VNum 2)]"]
  by (simp add: comparatorColumn_def descByN_def getField_def exampleColumn_def)

subsection \<open>The order of the stages\<close>

lemma js_insert_mset: "mset (js_insert cmp x ys) = add_mset x (mset ys)"
  by (induction ys) simp_all

lemma js_sort_mset: "mset (js_sort cmp xs) = mset xs"
  by (induction xs) (simp_all add: js_sort_def js_insert_mset)

lemma applySorting_mset: "mset (applySorting dat st cols dc) = mset dat"
  by (simp add: applySorting_def Let_def js_sort_mset)

lemma applyPagination_sublist: "sublist (applyPagination dat st en) dat"
  by (simp add: applyPagination_def Let_def js_slice_sublist)

lemma visibleData_cases:
  "visibleData (virtualScrollData rt t) =
     (if vs_enabled (getVirtualScrollConfig (mergedConfig t))
      then js_slice (sortedData rt t) (startIndex (virtualScrollData rt t))
             (endIndex (virtualScrollData rt t))
      else paginatedData rt t)"
  by (simp add: virtualScrollData_def Let_def computeVirtualScrollData_enabled
      computeVirtualScrollData_disabled)

text \<open>
  Claim C1, as amended. Filtering is applied to the raw rows, sorting to the filtered rows
  and pagination to the sorted rows. The rendered rows are the paginated rows when virtual
  scrolling is disabled; when it is enabled they are the window
  \<open>[startIndex, endIndex)\<close> of the whole filtered-and-sorted sequence, and pagination
  is bypassed. In both cases they are a contiguous slice of the sorted rows, which are a
  permutation of the filtered rows, which are a subsequence of the raw rows.
\<close>

theorem C1_pipeline_stages:
  "filteredData rt t = applyFiltering rt (tbl_data t) (filteringState t)
   \<and> sortedData rt t =
       applySorting (filteredData rt t) (sortingState t) (tbl_columns t) (defaultCompare rt)
   \<and> paginatedData rt t =
       applyPagination (sortedData rt t) (paginationState t)
         (case enablePagination (mergedConfig t) of None \<Rightarrow> True | Some b \<Rightarrow> b)
   \<and> visibleData (virtualScrollData rt t) =
       (if vs_enabled (getVirtualScrollConfig (mergedConfig t))
        then js_slice (sortedData rt t) (startIndex (virtualScrollData rt t))
               (endIndex (virtualScrollData rt t))
        else paginatedData rt t)
   \<and> sublist (visibleData (virtualScrollData rt t)) (sortedData rt t)
   \<and> sublist (paginatedData rt t) (sortedData rt t)
   \<and> mset (sortedData rt t) = mset (filteredData rt t)
   \<and> subseq (filteredData rt t) (tbl_data t)"
proof (intro conjI)
  show "filteredData rt t = applyFiltering rt (tbl_data t) (filteringState t)"
    by (simp add: filteredData_def)
  show "sortedData rt t =
       applySorting (filteredData rt t) (sortingState t) (tbl_columns t) (defaultCompare rt)"
    by (simp add: sortedData_def)
  show "paginatedData rt t =
       applyPagination (sortedData rt t) (paginationState t)
         (case enablePagination (mergedConfig t) of None \<Rightarrow> True | Some b \<Rightarrow> b)"
    by (simp add: paginatedData_def)
  show "visibleData (virtualScrollData rt t) =
       (if vs_enabled (getVirtualScrollConfig (mergedConfig t))
        then js_slice (sortedData rt t) (startIndex (virtualScrollData rt t))
               (endIndex (virtualScrollData rt t))
        else paginatedData rt t)"
    by (rule visibleData_cases)
  show pag: "sublist (paginatedData rt t) (sortedData rt t)"
    by (simp add: paginatedData_def applyPagination_sublist)
  show "sublist (visibleData (virtualScrollData rt t)) (sortedData rt t)"
  proof (cases "vs_enabled (getVirtualScrollConfig (mergedConfig t))")
    case True
    then have "visibleData (virtualScrollData rt t) =
        js_slice (sortedData rt t) (startIndex (virtualScrollData rt t))
          (endIndex (virtualScrollData rt t))"
      by (simp only: visibleData_cases if_True)
    then show ?thesis
      by (simp only: js_slice_sublist)
  next
    case False
    then have "visibleData (virtualScrollData rt t) = paginatedData rt t"
      by (simp only: visibleData_cases if_False)
    with pag show ?thesis by simp
  qed
  show "mset (sortedData rt t) = mset (filteredData rt t)"
    by (simp add: sortedData_def applySorting_mset)
  show "subseq (filteredData rt t) (tbl_data t)"
    by (simp add: filteredData_def applyFiltering_filter)
qed

lemma windowed_sorted: "sortedData sampleRuntime windowedTable = threeRows"
  by (simp add: sortedData_def filteredData_def applyFiltering_def applySorting_def
      windowedTable_def emptyTable_def emptyConfig_def createFilteringState_def createSortingState_def)

lemma windowed_config:
  "getVirtualScrollConfig (mergedConfig windowedTable) =
     \<lparr> vs_enabled = True, itemHeight = 48, bufferSize = 5, containerHeight = 600 \<rparr>"
  by (simp add: getVirtualScrollConfig_def mergedConfig_def mergeConfig_def orElse_def
      DEFAULT_TABLE_CONFIG_def windowedTable_def emptyTable_def emptyConfig_def)

lemma windowed_states:
  "paginationState windowedTable = \<lparr> currentPage = 1, pageSize = 2 \<rparr>"
  "virtualScrollState windowedTable = 0"
  "enablePagination (mergedConfig windowedTable) = Some True"
  by (simp_all add: windowedTable_def emptyTable_def emptyConfig_def createPaginationState_def mergedConfig_def
      mergeConfig_def orElse_def DEFAULT_TABLE_CONFIG_def)

lemma threeRows_page1: "js_slice threeRows 0 2 = [[(''id'', VNum 1)], [(''id'', VNum 2)]]"
  by (simp add: js_slice_def js_trunc_def threeRows_def)

lemma threeRows_window: "js_slice threeRows 0 3 = threeRows"
  by (simp add: js_slice_def js_trunc_def threeRows_def)

lemma windowed_paginated:
  "paginatedData sampleRuntime windowedTable = [[(''id'', VNum 1)], [(''id'', VNum 2)]]"
  by (simp add: paginatedData_def windowed_sorted windowed_states applyPagination_def
      threeRows_page1)

lemma windowed_visible:
  "visibleData (virtualScrollData sampleRuntime windowedTable) = threeRows"
proof -
  have len: "length threeRows = 3"
    by (simp add: threeRows_def)
  show ?thesis
    by (simp add: virtualScrollData_def windowed_config windowed_sorted windowed_states
        computeVirtualScrollData_enabled visibleCount_def len threeRows_window
        sampleRuntime_arithmetic)
qed

text \<open>
  Claim C1 as stated fails: with three rows, page size 2 and virtual scrolling enabled, the
  current page holds two rows and the window holds all three, so the visible rows are not
  a slice of the paginated rows.
\<close>

theorem C1_counterexample:
  "paginatedData sampleRuntime windowedTable = [[(''id'', VNum 1)], [(''id'', VNum 2)]]
   \<and> visibleData (virtualScrollData sampleRuntime windowedTable)
       = [[(''id'', VNum 1)], [(''id'', VNum 2)], [(''id'', VNum 3)]]
   \<and> \<not> sublist (visibleData (virtualScrollData sampleRuntime windowedTable))
          (paginatedData sampleRuntime windowedTable)"
proof (intro conjI)
  show p: "paginatedData sampleRuntime windowedTable = [[(''id'', VNum 1)], [(''id'', VNum 2)]]"
    by (rule windowed_paginated)
  show v: "visibleData (virtualScrollData sampleRuntime windowedTable)
       = [[(''id'', VNum 1)], [(''id'', VNum 2)], [(''id'', VNum 3)]]"
    by (simp add: windowed_visible threeRows_def)
  show "\<not> sublist (visibleData (virtualScrollData sampleRuntime windowedTable))
          (paginatedData sampleRuntime windowedTable)"
  proof
    assume "sublist (visibleData (virtualScrollData sampleRuntime windowedTable))
          (paginatedData sampleRuntime windowedTable)"
    then have "length (visibleData (virtualScrollData sampleRuntime windowedTable))
        \<le> length (paginatedData sampleRuntime windowedTable)"
      by (rule sublist_length_le)
    then show False
      by (simp add: p v)
  qed
qed

subsection \<open>Computed columns in filtering and sorting\<close>

lemma computed_values:
  "computeColumnValue sampleRuntime activeRow statusColumn = ''Active''"
  "computeColumnValue sampleRuntime inactiveRow statusColumn = ''Inactive''"
  by (simp_all add: computeColumnValue_def evaluateCondition_def statusColumn_def
      statusCondition_def activeRow_def inactiveRow_def getField_def js_String_def
      toLowerCase_def lowerChar_def)

lemma typed_filter:
  "filters (fst (handleFilterInput (computedColumnToColumnConfig statusColumn 0) ''Active''
                   createFilteringState)) =
     [\<lparr> filter_key = ''computed_1'', filter_value = FPrim (VStr ''Active''),
        filter_operator = Contains \<rparr>]"
  by (simp add: handleFilterInput_filters createFilteringState_def computedColumnToColumnConfig_def
      statusColumn_def js_trim_def isWhiteSpace_def getDefaultOperator_def)

lemma lower_active: "toLowerCase ''Active'' = ''active''"
  by code_simp

lemma active_not_in_undefined: "\<not> js_includes ''undefined'' ''active''"
  by code_simp

lemma filter_rejects_active:
  "\<not> applyFilterToRow sampleRuntime activeRow
       \<lparr> filter_key = ''computed_1'', filter_value = FPrim (VStr ''Active''),
         filter_operator = Contains \<rparr>"
  by (simp add: applyFilterToRow_def activeRow_def getField_def js_String_def
      filterValueString_def lower_active active_not_in_undefined toLowerCase_def lowerChar_def)

lemma filter_rejects_inactive:
  "\<not> applyFilterToRow sampleRuntime inactiveRow
       \<lparr> filter_key = ''computed_1'', filter_value = FPrim (VStr ''Active''),
         filter_operator = Contains \<rparr>"
  by (simp add: applyFilterToRow_def inactiveRow_def getField_def js_String_def
      filterValueString_def lower_active active_not_in_undefined toLowerCase_def lowerChar_def)

lemma filtered_by_computed: "filteredData sampleRuntime filteredByComputed = []"
proof -
  have "filteringState filteredByComputed =
      fst (handleFilterInput (computedColumnToColumnConfig statusColumn 0) ''Active''
             createFilteringState)"
    and "tbl_data filteredByComputed = [inactiveRow, activeRow]"
    by (simp_all add: filteredByComputed_def computedTable_def emptyTable_def emptyConfig_def)
  then show ?thesis
    by (simp add: filteredData_def applyFiltering_filter typed_filter filter_rejects_active
        filter_rejects_inactive)
qed

lemma sorted_by_computed:
  "sortedData sampleRuntime sortedByComputed = [inactiveRow, activeRow]"
proof -
  have st: "sortingState sortedByComputed =
        \<lparr> sorts = [\<lparr> sort_key = ''computed_1'', sort_direction = Asc, sort_order = 1 \<rparr>] \<rparr>"
    and d: "tbl_data sortedByComputed = [inactiveRow, activeRow]"
    and f: "filteringState sortedByComputed = createFilteringState"
    and c: "tbl_columns sortedByComputed = []"
    by (simp_all add: sortedByComputed_def computedTable_def emptyTable_def emptyConfig_def)
  have fd: "filteredData sampleRuntime sortedByComputed = [inactiveRow, activeRow]"
    by (simp add: filteredData_def applyFiltering_def f d createFilteringState_def)
  have cmp: "sortEntryComparison
      \<lparr> sort_key = ''computed_1'', sort_direction = Asc, sort_order = 1 \<rparr> []
      (defaultCompare sampleRuntime) inactiveRow activeRow = 0"
    by (simp add: sortEntryComparison_def defaultCompare_def getField_def inactiveRow_def
        activeRow_def Let_def)
  show ?thesis
    by (simp add: sortedData_def fd st c applySorting_def js_sort_def cmp Let_def)
qed

text \<open>
  Claim C3 does not hold of the code. The computed status column evaluates to \<open>'Active'\<close>
  on the row whose status is true and to \<open>'Inactive'\<close> on the other row, but the rows have
  no property under the column's key. Typing \<open>Active\<close> into the column's filter leaves no
  row although both computed values contain it, and sorting on the column in ascending
  order leaves the rows in their input order
  (\<open>'Inactive'\<close> before \<open>'Active'\<close>): both stages read the raw property, which is
  \<^verbatim>\<open>undefined\<close>.
\<close>

theorem C3_computed_column_read_as_raw_field:
  "computeColumnValue sampleRuntime activeRow statusColumn = ''Active''
   \<and> computeColumnValue sampleRuntime inactiveRow statusColumn = ''Inactive''
   \<and> getField activeRow (cc_key statusColumn) = VUndefined
   \<and> filters (filteringState filteredByComputed) =
       [\<lparr> filter_key = ''computed_1'', filter_value = FPrim (VStr ''Active''),
          filter_operator = Contains \<rparr>]
   \<and> filteredData sampleRuntime filteredByComputed = []
   \<and> sortedData sampleRuntime sortedByComputed = [inactiveRow, activeRow]"
proof (intro conjI)
  show "getField activeRow (cc_key statusColumn) = VUndefined"
    by (simp add: getField_def activeRow_def statusColumn_def)
  show "filters (filteringState filteredByComputed) =
       [\<lparr> filter_key = ''computed_1'', filter_value = FPrim (VStr ''Active''),
          filter_operator = Contains \<rparr>]"
    by (simp add: filteredByComputed_def typed_filter)
qed (simp_all add: computed_values filtered_by_computed sorted_by_computed)

subsection \<open>Selection\<close>

lemma toggleRowSelection_single:
  "selectionMode (deps_config deps) = Some Single \<Longrightarrow>
   card (selectedRows st) \<le> 1 \<Longrightarrow>
   card (selectedRows (fst (toggleRowSelection r st deps))) \<le> 1"
  by (simp add: toggleRowSelection_def Let_def)

lemma clearSelection_empty: "selectedRows (fst (clearSelection st)) = {}"
  by (simp add: clearSelection_def)

lemma single_config:
  "selectionMode (mergedConfig singleModeTable) = Some Single"
  "keyFieldOf (mergedConfig singleModeTable) = ''id''"
  "enablePagination (mergedConfig singleModeTable) = Some True"
  by (simp_all add: mergedConfig_def mergeConfig_def orElse_def DEFAULT_TABLE_CONFIG_def
      singleModeTable_def emptyTable_def emptyConfig_def keyFieldOf_def)

lemma single_states:
  "selectionState singleModeTable = \<lparr> selectedRows = {} \<rparr>"
  "paginationState singleModeTable = \<lparr> currentPage = 1, pageSize = 10 \<rparr>"
  "tbl_data singleModeTable = twoRows"
  "filteringState singleModeTable = createFilteringState"
  "sortingState singleModeTable = createSortingState"
  by (simp_all add: singleModeTable_def emptyTable_def emptyConfig_def createSelectionState_def
      createPaginationState_def)

lemma twoRows_page1: "js_slice twoRows 0 10 = twoRows"
  by (simp add: js_slice_def js_trunc_def twoRows_def)

lemma single_paginated: "paginatedData sampleRuntime singleModeTable = twoRows"
  by (simp add: paginatedData_def sortedData_def filteredData_def single_states single_config
      applyFiltering_def applySorting_def applyPagination_def createFilteringState_def
      createSortingState_def twoRows_page1)

lemma single_allSelected: "\<not> allSelected sampleRuntime singleModeTable"
  by (simp add: allSelected_def single_config single_paginated single_states
      computeAllSelected_def twoRows_def)

lemma single_toggleAll:
  "selectedRows (selectionState (fst (tbl_toggleAllSelection sampleRuntime singleModeTable)))
     = {VNum 1, VNum 2}"
  by (auto simp add: tbl_toggleAllSelection_def toggleAllSelection_def single_allSelected
      selectionDeps_def single_config single_paginated single_states twoRows_def getField_def
      Let_def split_def)

text \<open>
  Claim C4 does not hold of the code. \<^verbatim>\<open>toggleRowSelection\<close> and
  \<^verbatim>\<open>clearSelection\<close> keep at most one selected row in single mode (the two lemmas
  above), but \<^verbatim>\<open>toggleAllSelection\<close> never reads the selection mode: on a page of two
  rows with nothing selected it selects both.
\<close>

theorem C4_toggleAll_ignores_single_mode:
  "selectionMode (mergedConfig singleModeTable) = Some Single
   \<and> selectedRows (selectionState singleModeTable) = {}
   \<and> selectedRows (selectionState (fst (tbl_toggleAllSelection sampleRuntime singleModeTable)))
       = {VNum 1, VNum 2}
   \<and> card (selectedRows
             (selectionState (fst (tbl_toggleAllSelection sampleRuntime singleModeTable)))) = 2"
  by (simp add: single_config single_states single_toggleAll)

end
